theory Spec2Isabelle
  imports Complex_Main "HOL-Library.Option_ord" "HOL-Library.Product_Lexorder"
    "HOL-Library.List_Lexorder" "HOL-Library.Char_ord"
begin

section \<open>Tables: the polars frames the chart builders read\<close>

text \<open>
  The three builders of \<^verbatim>\<open>pages/1_Graficos.py\<close> take a polars \<^verbatim>\<open>DataFrame\<close>. A frame is an
  ordered list of named columns; a column (a polars \<^verbatim>\<open>Series\<close>) has one dtype and may hold
  nulls (\<open>None\<close>). Four dtypes are modelled: Date, Int64, Float64 and String.

  A \<^verbatim>\<open>datetime.date\<close> is the triple (year, month, day); the lexicographic order of triples
  is the chronological order. A Float64 cell is a rational or one of the IEEE special
  values; rounding to binary64, signed zeros and overflow are outside the model, so
  \<open>Fin q\<close> stands for the double nearest to \<open>q\<close>.
\<close>

type_synonym date = "nat \<times> nat \<times> nat"

datatype f64 = NegInf | Fin rat | PosInf | NaN

datatype series =
    DateS "date option list"
  | IntS "int option list"
  | FloatS "f64 option list"
  | StrS "string option list"

type_synonym colname = string

type_synonym dataframe = "(colname \<times> series) list"

text \<open>
  The exceptions a builder call can end with. None is raised by the builders' own code:
  \<open>ColumnNotFoundError\<close> and \<open>InvalidOperationError\<close> are polars' (a column name that the
  frame lacks; arithmetic on a dtype that has none), \<open>ValueError\<close> is plotly express'
  (\<^verbatim>\<open>Value of 'y' is not the name of a column in 'data_frame'\<close>), and \<open>AttributeError\<close> is
  Python's when \<^verbatim>\<open>d.strftime\<close> is asked of a value that is not a date. The string is the
  column the message names.
\<close>

datatype error =
    ColumnNotFoundError string
  | InvalidOperationError string
  | ValueError string
  | AttributeError

fun len :: "series \<Rightarrow> nat" where
  "len (DateS xs) = length xs"
| "len (IntS xs) = length xs"
| "len (FloatS xs) = length xs"
| "len (StrS xs) = length xs"

definition columns :: "dataframe \<Rightarrow> string list" where
  "columns df = map fst df"

definition height :: "dataframe \<Rightarrow> nat" where
  "height df = (case df of [] \<Rightarrow> 0 | (c, s) # rest \<Rightarrow> len s)"

text \<open>
  What polars guarantees of every frame it builds: column names are unique and all
  columns have the frame's height.
\<close>

definition wf_df :: "dataframe \<Rightarrow> bool" where
  "wf_df df = (distinct (columns df) \<and> list_all (\<lambda>(c, s). len s = height df) df)"

text \<open>\<^verbatim>\<open>df[name]\<close> and \<^verbatim>\<open>pl.col(name)\<close>: the column, or polars' error naming it.\<close>

definition get_column :: "dataframe \<Rightarrow> string \<Rightarrow> error + series" where
  "get_column df c = (case map_of df c of None \<Rightarrow> Inl (ColumnNotFoundError c) | Some s \<Rightarrow> Inr s)"

subsection \<open>\<^verbatim>\<open>DataFrame.sort\<close>\<close>

text \<open>
  \<^verbatim>\<open>df.sort(col)\<close> returns a new frame with the rows in ascending order of the column, nulls
  first (polars' defaults \<^verbatim>\<open>descending=False\<close>, \<^verbatim>\<open>nulls_last=False\<close>). \<open>arg_sort\<close> is the
  row permutation, \<open>gather\<close> applies it to a column. Floats are ordered with NaN last, as
  polars does. The model keeps rows with equal keys in their input order; polars
  (\<^verbatim>\<open>maintain_order=False\<close>) does not promise an order among them.
\<close>

fun f64_key :: "f64 \<Rightarrow> nat \<times> rat" where
  "f64_key NegInf = (0, 0)"
| "f64_key (Fin q) = (1, q)"
| "f64_key PosInf = (2, 0)"
| "f64_key NaN = (3, 0)"

fun arg_sort :: "series \<Rightarrow> nat list" where
  "arg_sort (DateS xs) = sort_key (\<lambda>i. xs ! i) [0..<length xs]"
| "arg_sort (IntS xs) = sort_key (\<lambda>i. xs ! i) [0..<length xs]"
| "arg_sort (FloatS xs) = sort_key (\<lambda>i. map_option f64_key (xs ! i)) [0..<length xs]"
| "arg_sort (StrS xs) = sort_key (\<lambda>i. xs ! i) [0..<length xs]"

fun gather :: "nat list \<Rightarrow> series \<Rightarrow> series" where
  "gather idx (DateS xs) = DateS (map (\<lambda>i. xs ! i) idx)"
| "gather idx (IntS xs) = IntS (map (\<lambda>i. xs ! i) idx)"
| "gather idx (FloatS xs) = FloatS (map (\<lambda>i. xs ! i) idx)"
| "gather idx (StrS xs) = StrS (map (\<lambda>i. xs ! i) idx)"

definition sort_df :: "dataframe \<Rightarrow> string \<Rightarrow> error + dataframe" where
  "sort_df df by_col =
     (case get_column df by_col of
        Inl e \<Rightarrow> Inl e
      | Inr k \<Rightarrow> Inr (map (\<lambda>(c, s). (c, gather (arg_sort k) s)) df))"

subsection \<open>\<^verbatim>\<open>DataFrame.tail\<close>\<close>

text \<open>
  \<^verbatim>\<open>df.tail(n)\<close> returns the last \<open>n\<close> rows, all rows when there are fewer; for a negative
  \<open>n\<close> it returns all rows except the first \<open>|n|\<close>. It raises for no \<open>n\<close> that fits a
  machine integer; larger Python ints are outside the model.
\<close>

definition tail_list :: "int \<Rightarrow> 'a list \<Rightarrow> 'a list" where
  "tail_list n xs = (if n < 0 then drop (nat (- n)) xs else drop (length xs - nat n) xs)"

fun tail_series :: "int \<Rightarrow> series \<Rightarrow> series" where
  "tail_series n (DateS xs) = DateS (tail_list n xs)"
| "tail_series n (IntS xs) = IntS (tail_list n xs)"
| "tail_series n (FloatS xs) = FloatS (tail_list n xs)"
| "tail_series n (StrS xs) = StrS (tail_list n xs)"

definition tail_df :: "dataframe \<Rightarrow> int \<Rightarrow> dataframe" where
  "tail_df df n = map (\<lambda>(c, s). (c, tail_series n s)) df"

subsection \<open>\<^verbatim>\<open>df.with_columns(pl.col(c) / k)\<close>\<close>

text \<open>
  True division of a column by a Python int gives a Float64 column of the same name, which
  replaces the column in the new frame; nulls stay null. Division by zero raises nothing:
  it gives an infinity or NaN. Date and String columns have no division.
\<close>

fun f64_div :: "f64 \<Rightarrow> int \<Rightarrow> f64" where
  "f64_div (Fin q) k =
     (if k = 0 then (if q = 0 then NaN else if 0 < q then PosInf else NegInf)
      else Fin (q / of_int k))"
| "f64_div PosInf k = (if k < 0 then NegInf else PosInf)"
| "f64_div NegInf k = (if k < 0 then PosInf else NegInf)"
| "f64_div NaN k = NaN"

fun div_series :: "string \<Rightarrow> series \<Rightarrow> int \<Rightarrow> error + series" where
  "div_series c (IntS xs) k = Inr (FloatS (map (map_option (\<lambda>v. f64_div (Fin (of_int v)) k)) xs))"
| "div_series c (FloatS xs) k = Inr (FloatS (map (map_option (\<lambda>v. f64_div v k)) xs))"
| "div_series c (DateS xs) k = Inl (InvalidOperationError c)"
| "div_series c (StrS xs) k = Inl (InvalidOperationError c)"

definition with_columns_div :: "dataframe \<Rightarrow> string \<Rightarrow> int \<Rightarrow> error + dataframe" where
  "with_columns_div df c k =
     (case get_column df c of
        Inl e \<Rightarrow> Inl e
      | Inr s \<Rightarrow>
          (case div_series c s k of
             Inl e \<Rightarrow> Inl e
           | Inr s' \<Rightarrow> Inr (map (\<lambda>(c', col). if c' = c then (c', s') else (c', col)) df)))"

section \<open>\<^verbatim>\<open>date.strftime\<close>\<close>

text \<open>
  \<^verbatim>\<open>date.strftime\<close> hands the format to the C library. The directives modelled are
  \<^verbatim>\<open>%B %b %Y %y %m %d %%\<close> in the C locale; the month names are those of dates with a month
  from 1 to 12, the only ones \<^verbatim>\<open>datetime.date\<close> holds. What the library prints from the first
  other directive on (weekday names, day of the year, clock fields, flags, a \<^verbatim>\<open>%\<close> that ends
  the format) is not modelled: \<open>libc_strftime\<close> stands for it and is left unspecified, so
  that nothing is stated about such output.
\<close>

definition month_names :: "string list" where
  "month_names = [''January'', ''February'', ''March'', ''April'', ''May'', ''June'', ''July'',
     ''August'', ''September'', ''October'', ''November'', ''December'']"

definition month_name :: "nat \<Rightarrow> string" where
  "month_name m = (if 1 \<le> m \<and> m \<le> 12 then month_names ! (m - 1) else [])"

definition digit_char :: "nat \<Rightarrow> char" where
  "digit_char n = ''0123456789'' ! (n mod 10)"

fun show_nat :: "nat \<Rightarrow> string" where
  "show_nat n = (if n < 10 then [digit_char n] else show_nat (n div 10) @ [digit_char n])"

declare show_nat.simps [simp del]

definition pad2 :: "nat \<Rightarrow> string" where
  "pad2 n = (if n < 10 then CHR ''0'' # show_nat n else show_nat n)"

definition libc_strftime :: "string \<Rightarrow> date \<Rightarrow> string" where
  "libc_strftime rest d = undefined rest d"

text \<open>The output of one modelled directive; \<open>None\<close> for every other character.\<close>

fun directive :: "char \<Rightarrow> date \<Rightarrow> string option" where
  "directive c (yr, mo, dy) =
     (if c = CHR ''B'' then Some (month_name mo)
      else if c = CHR ''b'' then Some (take 3 (month_name mo))
      else if c = CHR ''Y'' then Some (show_nat yr)
      else if c = CHR ''y'' then Some (pad2 (yr mod 100))
      else if c = CHR ''m'' then Some (pad2 mo)
      else if c = CHR ''d'' then Some (pad2 dy)
      else if c = CHR ''%'' then Some ''%''
      else None)"

fun strftime :: "string \<Rightarrow> date \<Rightarrow> string" where
  "strftime [] d = []"
| "strftime [c] d = (if c = CHR ''%'' then libc_strftime [c] d else [c])"
| "strftime (c # c' # cs) d =
     (if c = CHR ''%'' then
        (case directive c' d of
           Some out \<Rightarrow> out @ strftime cs d
         | None \<Rightarrow> libc_strftime (c # c' # cs) d)
      else c # strftime (c' # cs) d)"

text \<open>
  \<^verbatim>\<open>[d.strftime(fmt) for d in column]\<close>: the loop stops with \<open>AttributeError\<close> at the first
  element that is no date (a null, or any element of a column of another dtype).
\<close>

fun strftime_dates :: "string \<Rightarrow> date option list \<Rightarrow> error + string list" where
  "strftime_dates fmt [] = Inr []"
| "strftime_dates fmt (None # ds) = Inl AttributeError"
| "strftime_dates fmt (Some d # ds) =
     (case strftime_dates fmt ds of Inl e \<Rightarrow> Inl e | Inr ls \<Rightarrow> Inr (strftime fmt d # ls))"

definition strftime_all :: "string \<Rightarrow> series \<Rightarrow> error + string list" where
  "strftime_all fmt s =
     (case s of
        DateS ds \<Rightarrow> strftime_dates fmt ds
      | _ \<Rightarrow> if len s = 0 then Inr [] else Inl AttributeError)"

section \<open>Configuration constants\<close>

definition CHART_COLORS :: "string \<rightharpoonup> string" where
  "CHART_COLORS = map_of
     [(''orange'', ''#FF6200''), (''blue'', ''#0131FF''), (''gray'', ''#C7D2FF''),
      (''success'', ''#00AA44''), (''warning'', ''#FFB800''), (''danger'', ''#FF4B4B'')]"

definition FORMAT_TEMPLATES :: "string \<rightharpoonup> string" where
  "FORMAT_TEMPLATES = map_of
     [(''number'', ''{text:,.0f}''), (''percentage'', ''{text:.1%}''),
      (''currency'', ''${text:,.0f}M''), (''decimal'', ''{text:,.2f}'')]"

record chart_defaults =
  d_n_points :: int
  d_tick_angle :: int
  d_date_format :: string
  d_text_position :: string
  d_line_shape :: string
  d_mode :: string

definition CHART_DEFAULTS :: chart_defaults where
  "CHART_DEFAULTS =
     \<lparr>d_n_points = 12, d_tick_angle = 45, d_date_format = ''%B %y'',
      d_text_position = ''top center'', d_line_shape = ''linear'',
      d_mode = ''lines+markers+text''\<rparr>"

section \<open>Figures\<close>

text \<open>The roles of the builders' string arguments.\<close>

type_synonym template = string

type_synonym hexcolor = string

type_synonym label = string

text \<open>
  A plotly figure, as far as the builders set it: the traces with their data arrays and the
  attributes the source assigns, and the layout keys of \<^verbatim>\<open>update_layout\<close>. An attribute
  the source leaves to plotly is \<open>None\<close>. How plotly draws a figure is not modelled, nor
  is plotly's validation of attribute values (of a colour string, for instance): the
  builders pass them on as they are.
\<close>

datatype trace_kind = Scatter | Bar

record trace =
  tr_kind :: trace_kind
  tr_x :: series
  tr_y :: series
  tr_text :: "series option"
  tr_name :: "string option"
  tr_color :: "string option"
  tr_line_shape :: "string option"
  tr_mode :: "string option"
  tr_textposition :: "string option"
  tr_texttemplate :: "string option"

record legend =
  lg_orientation :: string
  lg_yanchor :: string
  lg_y :: rat
  lg_xanchor :: string
  lg_x :: rat

record figure =
  fig_traces :: "trace list"
  fig_title :: "string option"
  fig_tickvals :: "series option"
  fig_ticktext :: "string list option"
  fig_tickangle :: "int option"
  fig_showlegend :: "bool option"
  fig_margin :: "(int \<times> int \<times> int \<times> int) option"
  fig_legend :: "legend option"

text \<open>\<^verbatim>\<open>go.Figure()\<close>: no trace, nothing set.\<close>

definition Figure :: figure where
  "Figure = \<lparr>fig_traces = [], fig_title = None, fig_tickvals = None, fig_ticktext = None,
     fig_tickangle = None, fig_showlegend = None, fig_margin = None, fig_legend = None\<rparr>"

text \<open>
  plotly express resolves each column argument against the frame, \<open>x\<close> before \<open>y\<close> before
  \<open>text\<close>, and raises \<open>ValueError\<close> for a name that is not a column. With no grouping
  argument it builds one trace, also from a frame with no rows.
\<close>

definition px_column :: "dataframe \<Rightarrow> string \<Rightarrow> error + series" where
  "px_column df c = (case map_of df c of None \<Rightarrow> Inl (ValueError c) | Some s \<Rightarrow> Inr s)"

definition px_trace :: "trace_kind \<Rightarrow> series \<Rightarrow> series \<Rightarrow> series option \<Rightarrow> trace" where
  "px_trace k xs ys txt =
     \<lparr>tr_kind = k, tr_x = xs, tr_y = ys, tr_text = txt, tr_name = None, tr_color = None,
      tr_line_shape = None, tr_mode = None, tr_textposition = None, tr_texttemplate = None\<rparr>"

definition px_line :: "dataframe \<Rightarrow> colname \<Rightarrow> colname \<Rightarrow> colname \<Rightarrow> error + figure" where
  "px_line df x_arg y_arg text_arg =
     (case px_column df x_arg of Inl e \<Rightarrow> Inl e | Inr xs \<Rightarrow>
      (case px_column df y_arg of Inl e \<Rightarrow> Inl e | Inr ys \<Rightarrow>
       (case px_column df text_arg of Inl e \<Rightarrow> Inl e | Inr txt \<Rightarrow>
          Inr (Figure\<lparr>fig_traces := [px_trace Scatter xs ys (Some txt)]\<rparr>))))"

definition px_bar :: "dataframe \<Rightarrow> colname \<Rightarrow> colname \<Rightarrow> error + figure" where
  "px_bar df x_arg y_arg =
     (case px_column df x_arg of Inl e \<Rightarrow> Inl e | Inr xs \<Rightarrow>
      (case px_column df y_arg of Inl e \<Rightarrow> Inl e | Inr ys \<Rightarrow>
          Inr (Figure\<lparr>fig_traces := [px_trace Bar xs ys None]\<rparr>)))"

text \<open>\<^verbatim>\<open>fig.update_traces(...)\<close> applies the update to every trace of the figure.\<close>

definition update_traces :: "(trace \<Rightarrow> trace) \<Rightarrow> figure \<Rightarrow> figure" where
  "update_traces upd fig = fig\<lparr>fig_traces := map upd (fig_traces fig)\<rparr>"

definition add_trace :: "trace \<Rightarrow> figure \<Rightarrow> figure" where
  "add_trace t fig = fig\<lparr>fig_traces := fig_traces fig @ [t]\<rparr>"

definition bold_white :: "string \<Rightarrow> string" where
  "bold_white s = ''<b style='' @ [CHR 0x22] @ ''color:white;'' @ [CHR 0x22] @ ''>'' @ s @ ''</b>''"

section \<open>The chart builders\<close>

text \<open>
  Each builder is the source function, statement by statement; an exception of a library
  call ends it with \<open>Inl\<close>. Python's default arguments are passed by the caller. A builder
  first binds \<^verbatim>\<open>plot_data\<close> and then builds the figure from it; the second part is a
  function of its own (\<open>line_figure\<close>, \<open>dual_figure\<close>, \<open>bar_figure\<close>), so that the builders
  over an object store, further down, share it.
\<close>

definition line_figure ::
  "dataframe \<Rightarrow> colname \<Rightarrow> colname \<Rightarrow> template \<Rightarrow> label \<Rightarrow> hexcolor \<Rightarrow> int \<Rightarrow> template
     \<Rightarrow> error + figure" where
  "line_figure plot_data date_col y_values y_format title color tick_angle date_format =
     (case px_line plot_data date_col y_values y_values of Inl e \<Rightarrow> Inl e | Inr fig0 \<Rightarrow>
      let fig1 = update_traces
            (\<lambda>t. t\<lparr>tr_textposition := Some (d_text_position CHART_DEFAULTS),
                   tr_texttemplate := Some (bold_white (''%'' @ y_format)),
                   tr_color := Some color\<rparr>) fig0 in
      (case get_column plot_data date_col of Inl e \<Rightarrow> Inl e | Inr tickvals \<Rightarrow>
       (case strftime_all date_format tickvals of Inl e \<Rightarrow> Inl e | Inr ticktext \<Rightarrow>
          Inr (fig1\<lparr>fig_title := Some title, fig_tickvals := Some tickvals,
                 fig_ticktext := Some ticktext, fig_tickangle := Some tick_angle,
                 fig_showlegend := Some False, fig_margin := Some (50, 50, 50, 50)\<rparr>))))"

definition plot_line_chart ::
  "dataframe \<Rightarrow> colname \<Rightarrow> colname \<Rightarrow> template \<Rightarrow> label \<Rightarrow> hexcolor \<Rightarrow> int \<Rightarrow> int
     \<Rightarrow> template \<Rightarrow> error + figure" where
  "plot_line_chart df date_col y_values y_format title color n_points tick_angle date_format =
     (case sort_df df date_col of Inl e \<Rightarrow> Inl e | Inr sorted_data \<Rightarrow>
      let plot_data = tail_df sorted_data n_points in
      line_figure plot_data date_col y_values y_format title color tick_angle date_format)"

text \<open>
  The keyword arguments of \<^verbatim>\<open>go.Scatter\<close> are evaluated before the call: \<open>x\<close>, then \<open>y\<close>,
  then \<open>text\<close>, each a column lookup by polars.
\<close>

definition scatter_of ::
  "dataframe \<Rightarrow> colname \<Rightarrow> colname \<Rightarrow> label \<Rightarrow> hexcolor \<Rightarrow> template \<Rightarrow> error + trace" where
  "scatter_of plot_data date_col y_col y_name y_color y_format =
     (case get_column plot_data date_col of Inl e \<Rightarrow> Inl e | Inr xs \<Rightarrow>
      (case get_column plot_data y_col of Inl e \<Rightarrow> Inl e | Inr ys \<Rightarrow>
       (case get_column plot_data y_col of Inl e \<Rightarrow> Inl e | Inr txt \<Rightarrow>
          Inr \<lparr>tr_kind = Scatter, tr_x = xs, tr_y = ys, tr_text = Some txt,
               tr_name = Some y_name, tr_color = Some y_color,
               tr_line_shape = Some (d_line_shape CHART_DEFAULTS),
               tr_mode = Some (d_mode CHART_DEFAULTS),
               tr_textposition = Some (d_text_position CHART_DEFAULTS),
               tr_texttemplate = Some (''%'' @ y_format)\<rparr>)))"

definition dual_figure ::
  "dataframe \<Rightarrow> colname \<Rightarrow> colname \<Rightarrow> colname \<Rightarrow> label \<Rightarrow> label \<Rightarrow> label
     \<Rightarrow> hexcolor \<Rightarrow> hexcolor \<Rightarrow> template \<Rightarrow> template \<Rightarrow> template \<Rightarrow> int
     \<Rightarrow> error + figure" where
  "dual_figure plot_data date_col y1_col y2_col title y1_name y2_name y1_color y2_color
       y1_format y2_format date_format tick_angle =
     (let fig0 = Figure in
      (case scatter_of plot_data date_col y1_col y1_name y1_color y1_format of
         Inl e \<Rightarrow> Inl e | Inr t1 \<Rightarrow>
       let fig1 = add_trace t1 fig0 in
       (case scatter_of plot_data date_col y2_col y2_name y2_color y2_format of
          Inl e \<Rightarrow> Inl e | Inr t2 \<Rightarrow>
        let fig2 = add_trace t2 fig1 in
        (case get_column plot_data date_col of Inl e \<Rightarrow> Inl e | Inr tickvals \<Rightarrow>
         (case strftime_all date_format tickvals of Inl e \<Rightarrow> Inl e | Inr ticktext \<Rightarrow>
            Inr (fig2\<lparr>fig_title := Some title, fig_tickvals := Some tickvals,
                   fig_ticktext := Some ticktext, fig_tickangle := Some tick_angle,
                   fig_margin := Some (50, 50, 50, 50),
                   fig_legend := Some \<lparr>lg_orientation = ''h'', lg_yanchor = ''bottom'',
                      lg_y = 51 / 50, lg_xanchor = ''right'', lg_x = 1\<rparr>\<rparr>))))))"

definition plot_dual_line_chart ::
  "dataframe \<Rightarrow> colname \<Rightarrow> colname \<Rightarrow> colname \<Rightarrow> label \<Rightarrow> label \<Rightarrow> label
     \<Rightarrow> hexcolor \<Rightarrow> hexcolor \<Rightarrow> template \<Rightarrow> template \<Rightarrow> template \<Rightarrow> int \<Rightarrow> int
     \<Rightarrow> error + figure" where
  "plot_dual_line_chart df date_col y1_col y2_col title y1_name y2_name y1_color y2_color
       y1_format y2_format date_format tick_angle n_points =
     (case sort_df df date_col of Inl e \<Rightarrow> Inl e | Inr sorted_data \<Rightarrow>
      let plot_data = tail_df sorted_data n_points in
      dual_figure plot_data date_col y1_col y2_col title y1_name y2_name y1_color y2_color
        y1_format y2_format date_format tick_angle)"

definition bar_figure ::
  "dataframe \<Rightarrow> colname \<Rightarrow> colname \<Rightarrow> label \<Rightarrow> hexcolor \<Rightarrow> error + figure" where
  "bar_figure plot_data x_axis y_values title color =
     (case px_bar plot_data x_axis y_values of Inl e \<Rightarrow> Inl e | Inr fig0 \<Rightarrow>
      let fig1 = update_traces
            (\<lambda>t. t\<lparr>tr_textposition := Some ''outside'',
                   tr_texttemplate := Some (bold_white (the (FORMAT_TEMPLATES ''currency''))),
                   tr_color := Some color\<rparr>) fig0 in
      (case get_column plot_data x_axis of Inl e \<Rightarrow> Inl e | Inr tickvals \<Rightarrow>
       (case strftime_all ''%B %Y'' tickvals of Inl e \<Rightarrow> Inl e | Inr ticktext \<Rightarrow>
          Inr (fig1\<lparr>fig_title := Some title, fig_tickvals := Some tickvals,
                 fig_ticktext := Some ticktext,
                 fig_tickangle := Some (d_tick_angle CHART_DEFAULTS),
                 fig_showlegend := Some False, fig_margin := Some (50, 50, 50, 50)\<rparr>))))"

definition plot_bar_chart ::
  "dataframe \<Rightarrow> colname \<Rightarrow> colname \<Rightarrow> label \<Rightarrow> hexcolor \<Rightarrow> colname \<Rightarrow> int \<Rightarrow> int
     \<Rightarrow> error + figure" where
  "plot_bar_chart df x_axis y_values title color value_column scale_factor n_points =
     (case with_columns_div df value_column scale_factor of Inl e \<Rightarrow> Inl e | Inr scaled \<Rightarrow>
      let plot_data = tail_df scaled n_points in
      bar_figure plot_data x_axis y_values title color)"

section \<open>The builders over an object store\<close>

text \<open>
  Python passes the frame by reference. To say what a call does to the caller's frame, the
  builders are run over a store of frame objects: a reference is an index into the store.
  The polars methods the builders call (\<^verbatim>\<open>sort\<close>, \<^verbatim>\<open>tail\<close>, \<^verbatim>\<open>with_columns\<close>) each return a
  new frame object and assign nothing to their receiver; no builder assigns to a frame.
\<close>

type_synonym store = "dataframe list"

definition alloc :: "store \<Rightarrow> dataframe \<Rightarrow> nat \<times> store" where
  "alloc st df = (length st, st @ [df])"

definition sort_ref :: "store \<Rightarrow> nat \<Rightarrow> string \<Rightarrow> (error + nat) \<times> store" where
  "sort_ref st r by_col =
     (case sort_df (st ! r) by_col of
        Inl e \<Rightarrow> (Inl e, st)
      | Inr d \<Rightarrow> (case alloc st d of (r', st') \<Rightarrow> (Inr r', st')))"

definition tail_ref :: "store \<Rightarrow> nat \<Rightarrow> int \<Rightarrow> nat \<times> store" where
  "tail_ref st r n = alloc st (tail_df (st ! r) n)"

definition with_columns_div_ref :: "store \<Rightarrow> nat \<Rightarrow> string \<Rightarrow> int \<Rightarrow> (error + nat) \<times> store" where
  "with_columns_div_ref st r c k =
     (case with_columns_div (st ! r) c k of
        Inl e \<Rightarrow> (Inl e, st)
      | Inr d \<Rightarrow> (case alloc st d of (r', st') \<Rightarrow> (Inr r', st')))"

definition plot_line_chart_ref ::
  "store \<Rightarrow> nat \<Rightarrow> colname \<Rightarrow> colname \<Rightarrow> template \<Rightarrow> label \<Rightarrow> hexcolor \<Rightarrow> int \<Rightarrow> int
     \<Rightarrow> template \<Rightarrow> (error + figure) \<times> store" where
  "plot_line_chart_ref st df date_col y_values y_format title color n_points tick_angle date_format =
     (case sort_ref st df date_col of
        (Inl e, st1) \<Rightarrow> (Inl e, st1)
      | (Inr sorted_data, st1) \<Rightarrow>
          (case tail_ref st1 sorted_data n_points of (plot_data, st2) \<Rightarrow>
             (line_figure (st2 ! plot_data) date_col y_values y_format title color tick_angle
                date_format, st2)))"

definition plot_dual_line_chart_ref ::
  "store \<Rightarrow> nat \<Rightarrow> colname \<Rightarrow> colname \<Rightarrow> colname \<Rightarrow> label \<Rightarrow> label \<Rightarrow> label
     \<Rightarrow> hexcolor \<Rightarrow> hexcolor \<Rightarrow> template \<Rightarrow> template \<Rightarrow> template \<Rightarrow> int \<Rightarrow> int
     \<Rightarrow> (error + figure) \<times> store" where
  "plot_dual_line_chart_ref st df date_col y1_col y2_col title y1_name y2_name y1_color y2_color
       y1_format y2_format date_format tick_angle n_points =
     (case sort_ref st df date_col of
        (Inl e, st1) \<Rightarrow> (Inl e, st1)
      | (Inr sorted_data, st1) \<Rightarrow>
          (case tail_ref st1 sorted_data n_points of (plot_data, st2) \<Rightarrow>
             (dual_figure (st2 ! plot_data) date_col y1_col y2_col title y1_name y2_name
                y1_color y2_color y1_format y2_format date_format tick_angle, st2)))"

definition plot_bar_chart_ref ::
  "store \<Rightarrow> nat \<Rightarrow> colname \<Rightarrow> colname \<Rightarrow> label \<Rightarrow> hexcolor \<Rightarrow> colname \<Rightarrow> int \<Rightarrow> int
     \<Rightarrow> (error + figure) \<times> store" where
  "plot_bar_chart_ref st df x_axis y_values title color value_column scale_factor n_points =
     (case with_columns_div_ref st df value_column scale_factor of
        (Inl e, st1) \<Rightarrow> (Inl e, st1)
      | (Inr scaled, st1) \<Rightarrow>
          (case tail_ref st1 scaled n_points of (plot_data, st2) \<Rightarrow>
             (bar_figure (st2 ! plot_data) x_axis y_values title color, st2)))"

section \<open>Reading a builder's result\<close>

text \<open>
  The data of a result: the x arrays, the y arrays and the text templates of its traces, in
  trace order, and its tick labels. An error is passed through.
\<close>

definition xs_of :: "error + figure \<Rightarrow> error + series list" where
  "xs_of r = map_sum id (\<lambda>fig. map tr_x (fig_traces fig)) r"

definition ys_of :: "error + figure \<Rightarrow> error + series list" where
  "ys_of r = map_sum id (\<lambda>fig. map tr_y (fig_traces fig)) r"

definition templates_of :: "error + figure \<Rightarrow> error + string option list" where
  "templates_of r = map_sum id (\<lambda>fig. map tr_texttemplate (fig_traces fig)) r"

definition ticktext_of :: "error + figure \<Rightarrow> error + string list option" where
  "ticktext_of r = map_sum id fig_ticktext r"

definition tickvals_of :: "error + figure \<Rightarrow> error + series option" where
  "tickvals_of r = map_sum id fig_tickvals r"

text \<open>Ascending order of a column, in the order \<^verbatim>\<open>sort\<close> uses for its dtype.\<close>

fun sorted_series :: "series \<Rightarrow> bool" where
  "sorted_series (DateS xs) = sorted xs"
| "sorted_series (IntS xs) = sorted xs"
| "sorted_series (FloatS xs) = sorted (map (map_option f64_key) xs)"
| "sorted_series (StrS xs) = sorted xs"

text \<open>The dtypes that have a division.\<close>

fun numeric :: "series \<Rightarrow> bool" where
  "numeric (IntS xs) = True"
| "numeric (FloatS xs) = True"
| "numeric (DateS xs) = False"
| "numeric (StrS xs) = False"

text \<open>
  The rows of column \<open>s\<close> that \<^verbatim>\<open>df.sort(k).tail(n)\<close> keeps, in their new order, where \<open>k\<close> is
  the sort column's data.
\<close>

definition window :: "series \<Rightarrow> int \<Rightarrow> series \<Rightarrow> series" where
  "window k n s = tail_series n (gather (arg_sort k) s)"

text \<open>
  Column \<open>c\<close> of the frame \<^verbatim>\<open>df.with_columns(pl.col(value_column) / k)\<close>, where \<open>sv'\<close> is the
  divided column.
\<close>

definition scaled_column :: "dataframe \<Rightarrow> colname \<Rightarrow> series \<Rightarrow> colname \<Rightarrow> series option" where
  "scaled_column df value_column sv' c = (if c = value_column then Some sv' else map_of df c)"

section \<open>A sample table\<close>

text \<open>
  Three monthly rows, not in date order: 2022-03-01, 2022-01-01, 2022-02-01, with the
  columns of the page's demo data.
\<close>

definition scenario :: dataframe where
  "scenario =
     [(''date'', DateS [Some (2022, 3, 1), Some (2022, 1, 1), Some (2022, 2, 1)]),
      (''Value1'', IntS [Some 150, Some 100, Some 200]),
      (''Value2'', IntS [Some 900, Some 1200, Some 800]),
      (''Monto_Efectivo'', IntS [Some 2500000, Some 1000000, Some 4000000])]"

text \<open>Two rows of the same day.\<close>

definition same_day :: dataframe where
  "same_day =
     [(''date'', DateS [Some (2022, 1, 1), Some (2022, 1, 1)]),
      (''Value1'', IntS [Some 100, Some 200])]"

text \<open>A date column with a null.\<close>

definition null_date :: dataframe where
  "null_date =
     [(''date'', DateS [Some (2022, 1, 1), None]),
      (''Value1'', IntS [Some 100, Some 200])]"


section \<open>Facts about the frame operations\<close>

lemma map_of_map_values:
  "map_of (map (\<lambda>(c, s). (c, f s)) df) c = map_option f (map_of df c)"
  by (induction df) auto

lemma get_column_tail_df:
  "get_column (tail_df df n) c = map_sum id (tail_series n) (get_column df c)"
  by (simp add: get_column_def tail_df_def map_of_map_values split: option.splits)

lemma px_column_tail_df:
  "px_column (tail_df df n) c = map_sum id (tail_series n) (px_column df c)"
  by (simp add: px_column_def tail_df_def map_of_map_values split: option.splits)

lemma sort_df_Some:
  "map_of df c = Some k \<Longrightarrow> sort_df df c = Inr (map (\<lambda>(c', s). (c', gather (arg_sort k) s)) df)"
  by (simp add: sort_df_def get_column_def)

lemma sort_df_None: "map_of df c = None \<Longrightarrow> sort_df df c = Inl (ColumnNotFoundError c)"
  by (simp add: sort_df_def get_column_def)

lemma map_of_sort_df:
  "sort_df df c = Inr sd \<Longrightarrow> \<exists>k. map_of df c = Some k \<and> (\<forall>c'. map_of sd c' = map_option (gather (arg_sort k)) (map_of df c'))"
  by (auto simp: sort_df_def get_column_def map_of_map_values split: option.splits)

lemma map_insort_key: "map f (insort_key f x xs) = insort (f x) (map f xs)"
  by (induction xs) auto

lemma map_sort_key: "map f (sort_key f xs) = sort (map f xs)"
  by (induction xs) (auto simp: map_insort_key)

lemma gather_arg_sort_DateS: "gather (arg_sort (DateS ds)) (DateS ds) = DateS (sort ds)"
  by (simp add: map_sort_key map_nth)

lemma sorted_gather_arg_sort: "sorted_series (gather (arg_sort k) k)"
proof (cases k)
  case (FloatS xs)
  show ?thesis
    using sorted_sort_key [of "\<lambda>i. map_option f64_key (xs ! i)" "[0..<length xs]"]
    by (simp add: FloatS comp_def)
qed (simp_all add: map_sort_key map_nth)

lemma sorted_tail_list: "sorted xs \<Longrightarrow> sorted (tail_list n xs)"
  by (simp add: tail_list_def sorted_wrt_drop)

lemma map_tail_list: "map f (tail_list n xs) = tail_list n (map f xs)"
  by (simp add: tail_list_def drop_map)

lemma sorted_tail_series: "sorted_series s \<Longrightarrow> sorted_series (tail_series n s)"
  by (cases s) (simp_all add: sorted_tail_list map_tail_list)

lemma length_tail_list:
  "length (tail_list n xs) = (if n < 0 then length xs - nat (- n) else min (nat n) (length xs))"
  by (auto simp: tail_list_def)

lemma len_tail_series:
  "len (tail_series n s) = (if n < 0 then len s - nat (- n) else min (nat n) (len s))"
  by (cases s) (simp_all add: length_tail_list)

lemma len_gather: "len (gather idx s) = length idx"
  by (cases s) simp_all

lemma length_arg_sort: "length (arg_sort s) = len s"
  by (cases s) simp_all

lemma strftime_dates_total:
  "None \<notin> set ds \<Longrightarrow> strftime_dates fmt ds = Inr (map (\<lambda>d. strftime fmt (the d)) ds)"
  by (induction fmt ds rule: strftime_dates.induct) auto

lemma strftime_dates_Inr:
  "strftime_dates fmt ds = Inr ls \<Longrightarrow> None \<notin> set ds \<and> ls = map (\<lambda>d. strftime fmt (the d)) ds"
  by (induction fmt ds arbitrary: ls rule: strftime_dates.induct) (auto split: sum.splits)

lemma set_tail_list: "set (tail_list n xs) \<subseteq> set xs"
  by (auto simp: tail_list_def dest: in_set_dropD)

lemma wf_df_len: "wf_df df \<Longrightarrow> map_of df c = Some s \<Longrightarrow> len s = height df"
  by (auto simp: wf_df_def list_all_iff dest: map_of_SomeD)

lemma in_columns_map_of: "c \<in> set (columns df) \<Longrightarrow> \<exists>s. map_of df c = Some s"
  by (cases "map_of df c") (auto simp: columns_def map_of_eq_None_iff)


lemma line_figure_ok:
  assumes "map_of pd date_col = Some (DateS w)" "None \<notin> set w" "map_of pd y_values = Some ys"
  shows "line_figure pd date_col y_values y_format title color tick_angle date_format =
    Inr \<lparr>fig_traces =
            [\<lparr>tr_kind = Scatter, tr_x = DateS w, tr_y = ys, tr_text = Some ys, tr_name = None,
              tr_color = Some color, tr_line_shape = None, tr_mode = None,
              tr_textposition = Some (d_text_position CHART_DEFAULTS),
              tr_texttemplate = Some (bold_white (''%'' @ y_format))\<rparr>],
          fig_title = Some title, fig_tickvals = Some (DateS w),
          fig_ticktext = Some (map (\<lambda>d. strftime date_format (the d)) w),
          fig_tickangle = Some tick_angle, fig_showlegend = Some False,
          fig_margin = Some (50, 50, 50, 50), fig_legend = None\<rparr>"
  using assms
  by (simp add: line_figure_def px_line_def px_column_def get_column_def update_traces_def
      Figure_def px_trace_def strftime_all_def strftime_dates_total)

lemma map_of_tail_df: "map_of (tail_df df n) c = map_option (tail_series n) (map_of df c)"
  unfolding tail_df_def by (rule map_of_map_values)

lemma map_of_gather:
  "map_of (map (\<lambda>(c', s). (c', gather idx s)) df) c = map_option (gather idx) (map_of df c)"
  by (rule map_of_map_values)

lemma plot_line_chart_ok:
  assumes "map_of df date_col = Some (DateS ds)" "None \<notin> set ds" "map_of df y_values = Some ys"
  shows "plot_line_chart df date_col y_values y_format title color n_points tick_angle date_format =
    Inr \<lparr>fig_traces =
            [\<lparr>tr_kind = Scatter, tr_x = DateS (tail_list n_points (sort ds)),
              tr_y = tail_series n_points (gather (arg_sort (DateS ds)) ys),
              tr_text = Some (tail_series n_points (gather (arg_sort (DateS ds)) ys)),
              tr_name = None,
              tr_color = Some color, tr_line_shape = None, tr_mode = None,
              tr_textposition = Some (d_text_position CHART_DEFAULTS),
              tr_texttemplate = Some (bold_white (''%'' @ y_format))\<rparr>],
          fig_title = Some title, fig_tickvals = Some (DateS (tail_list n_points (sort ds))),
          fig_ticktext = Some (map (\<lambda>d. strftime date_format (the d)) (tail_list n_points (sort ds))),
          fig_tickangle = Some tick_angle, fig_showlegend = Some False,
          fig_margin = Some (50, 50, 50, 50), fig_legend = None\<rparr>"
proof -
  have w: "None \<notin> set (tail_list n_points (sort ds))"
    using assms(2) set_tail_list [of n_points "sort ds"] by auto
  have x: "map_of (tail_df (map (\<lambda>(c', s). (c', gather (arg_sort (DateS ds)) s)) df) n_points) date_col
      = Some (DateS (tail_list n_points (sort ds)))"
    using assms(1) by (simp add: map_of_tail_df map_of_gather map_sort_key map_nth)
  have y: "map_of (tail_df (map (\<lambda>(c', s). (c', gather (arg_sort (DateS ds)) s)) df) n_points) y_values
      = Some (tail_series n_points (gather (arg_sort (DateS ds)) ys))"
    using assms(3) by (simp add: map_of_tail_df map_of_gather)
  have "plot_line_chart df date_col y_values y_format title color n_points tick_angle date_format
      = line_figure (tail_df (map (\<lambda>(c', s). (c', gather (arg_sort (DateS ds)) s)) df) n_points)
          date_col y_values y_format title color tick_angle date_format"
    by (simp only: plot_line_chart_def sort_df_Some [OF assms(1)] sum.case Let_def)
  then show ?thesis
    by (simp only: line_figure_ok [OF x w y])
qed



section \<open>The builders in normal form\<close>

text \<open>
  Each builder as one case distinction over the frame's columns: which lookup fails first,
  and the figure when none does.
\<close>

lemma map_of_plot_data:
  "map_of (tail_df (map (\<lambda>(c', s). (c', gather (arg_sort k) s)) df) n) c
     = map_option (window k n) (map_of df c)"
  by (cases "map_of df c")
    (simp_all add: map_of_tail_df map_of_gather window_def del: arg_sort.simps)

lemma line_figure_eq:
  "line_figure pd date_col y_values y_format title color tick_angle date_format =
     (case map_of pd date_col of
        None \<Rightarrow> Inl (ValueError date_col)
      | Some xs \<Rightarrow>
          (case map_of pd y_values of
             None \<Rightarrow> Inl (ValueError y_values)
           | Some ys \<Rightarrow>
               (case strftime_all date_format xs of
                  Inl e \<Rightarrow> Inl e
                | Inr tt \<Rightarrow>
                    Inr \<lparr>fig_traces =
                           [\<lparr>tr_kind = Scatter, tr_x = xs, tr_y = ys, tr_text = Some ys,
                             tr_name = None, tr_color = Some color, tr_line_shape = None,
                             tr_mode = None,
                             tr_textposition = Some (d_text_position CHART_DEFAULTS),
                             tr_texttemplate = Some (bold_white (''%'' @ y_format))\<rparr>],
                         fig_title = Some title, fig_tickvals = Some xs,
                         fig_ticktext = Some tt, fig_tickangle = Some tick_angle,
                         fig_showlegend = Some False, fig_margin = Some (50, 50, 50, 50),
                         fig_legend = None\<rparr>)))"
  by (simp add: line_figure_def px_line_def px_column_def get_column_def update_traces_def
      Figure_def px_trace_def split: option.splits sum.splits)

lemma plot_line_chart_eq:
  "plot_line_chart df date_col y_values y_format title color n_points tick_angle date_format =
     (case map_of df date_col of
        None \<Rightarrow> Inl (ColumnNotFoundError date_col)
      | Some k \<Rightarrow>
          (case map_of df y_values of
             None \<Rightarrow> Inl (ValueError y_values)
           | Some ys \<Rightarrow>
               (case strftime_all date_format (window k n_points k) of
                  Inl e \<Rightarrow> Inl e
                | Inr tt \<Rightarrow>
                    Inr \<lparr>fig_traces =
                           [\<lparr>tr_kind = Scatter, tr_x = window k n_points k,
                             tr_y = window k n_points ys,
                             tr_text = Some (window k n_points ys),
                             tr_name = None, tr_color = Some color, tr_line_shape = None,
                             tr_mode = None,
                             tr_textposition = Some (d_text_position CHART_DEFAULTS),
                             tr_texttemplate = Some (bold_white (''%'' @ y_format))\<rparr>],
                         fig_title = Some title, fig_tickvals = Some (window k n_points k),
                         fig_ticktext = Some tt, fig_tickangle = Some tick_angle,
                         fig_showlegend = Some False, fig_margin = Some (50, 50, 50, 50),
                         fig_legend = None\<rparr>)))"
proof (cases "map_of df date_col")
  case None
  then show ?thesis
    by (simp add: plot_line_chart_def sort_df_None)
next
  case (Some k)
  show ?thesis
    unfolding plot_line_chart_def sort_df_Some [OF Some] Let_def sum.case line_figure_eq
      map_of_plot_data
    by (simp add: Some split: option.splits)
qed

lemma scatter_of_eq:
  "scatter_of pd date_col y_col y_name y_color y_format =
     (case map_of pd date_col of
        None \<Rightarrow> Inl (ColumnNotFoundError date_col)
      | Some xs \<Rightarrow>
          (case map_of pd y_col of
             None \<Rightarrow> Inl (ColumnNotFoundError y_col)
           | Some ys \<Rightarrow>
               Inr \<lparr>tr_kind = Scatter, tr_x = xs, tr_y = ys, tr_text = Some ys,
                    tr_name = Some y_name, tr_color = Some y_color,
                    tr_line_shape = Some (d_line_shape CHART_DEFAULTS),
                    tr_mode = Some (d_mode CHART_DEFAULTS),
                    tr_textposition = Some (d_text_position CHART_DEFAULTS),
                    tr_texttemplate = Some (''%'' @ y_format)\<rparr>))"
  by (simp add: scatter_of_def get_column_def split: option.splits)

lemma plot_dual_line_chart_eq:
  "plot_dual_line_chart df date_col y1_col y2_col title y1_name y2_name y1_color y2_color
       y1_format y2_format date_format tick_angle n_points =
     (case map_of df date_col of
        None \<Rightarrow> Inl (ColumnNotFoundError date_col)
      | Some k \<Rightarrow>
          (case map_of df y1_col of
             None \<Rightarrow> Inl (ColumnNotFoundError y1_col)
           | Some s1 \<Rightarrow>
               (case map_of df y2_col of
                  None \<Rightarrow> Inl (ColumnNotFoundError y2_col)
                | Some s2 \<Rightarrow>
                    (case strftime_all date_format (window k n_points k) of
                       Inl e \<Rightarrow> Inl e
                     | Inr tt \<Rightarrow>
                         Inr \<lparr>fig_traces =
                                [\<lparr>tr_kind = Scatter, tr_x = window k n_points k,
                                  tr_y = window k n_points s1,
                                  tr_text = Some (window k n_points s1),
                                  tr_name = Some y1_name, tr_color = Some y1_color,
                                  tr_line_shape = Some (d_line_shape CHART_DEFAULTS),
                                  tr_mode = Some (d_mode CHART_DEFAULTS),
                                  tr_textposition = Some (d_text_position CHART_DEFAULTS),
                                  tr_texttemplate = Some (''%'' @ y1_format)\<rparr>,
                                 \<lparr>tr_kind = Scatter, tr_x = window k n_points k,
                                  tr_y = window k n_points s2,
                                  tr_text = Some (window k n_points s2),
                                  tr_name = Some y2_name, tr_color = Some y2_color,
                                  tr_line_shape = Some (d_line_shape CHART_DEFAULTS),
                                  tr_mode = Some (d_mode CHART_DEFAULTS),
                                  tr_textposition = Some (d_text_position CHART_DEFAULTS),
                                  tr_texttemplate = Some (''%'' @ y2_format)\<rparr>],
                              fig_title = Some title,
                              fig_tickvals = Some (window k n_points k),
                              fig_ticktext = Some tt, fig_tickangle = Some tick_angle,
                              fig_showlegend = None, fig_margin = Some (50, 50, 50, 50),
                              fig_legend = Some \<lparr>lg_orientation = ''h'',
                                lg_yanchor = ''bottom'', lg_y = 51 / 50,
                                lg_xanchor = ''right'', lg_x = 1\<rparr>\<rparr>))))"
proof (cases "map_of df date_col")
  case None
  then show ?thesis
    by (simp add: plot_dual_line_chart_def sort_df_None)
next
  case (Some k)
  show ?thesis
    unfolding plot_dual_line_chart_def sort_df_Some [OF Some] Let_def sum.case dual_figure_def
      scatter_of_eq get_column_def map_of_plot_data
    by (simp add: Some add_trace_def Figure_def split: option.splits sum.splits)
qed

lemma map_of_replace:
  "map_of (map (\<lambda>(c', col). if c' = c then (c', s') else (c', col)) df) c'' =
     (if c'' = c then map_option (\<lambda>s. s') (map_of df c) else map_of df c'')"
  by (induction df) auto

lemma bar_figure_eq:
  "bar_figure pd x_axis y_values title color =
     (case map_of pd x_axis of
        None \<Rightarrow> Inl (ValueError x_axis)
      | Some xs \<Rightarrow>
          (case map_of pd y_values of
             None \<Rightarrow> Inl (ValueError y_values)
           | Some ys \<Rightarrow>
               (case strftime_all ''%B %Y'' xs of
                  Inl e \<Rightarrow> Inl e
                | Inr tt \<Rightarrow>
                    Inr \<lparr>fig_traces =
                           [\<lparr>tr_kind = Bar, tr_x = xs, tr_y = ys, tr_text = None,
                             tr_name = None, tr_color = Some color, tr_line_shape = None,
                             tr_mode = None, tr_textposition = Some ''outside'',
                             tr_texttemplate = Some (bold_white ''${text:,.0f}M'')\<rparr>],
                         fig_title = Some title, fig_tickvals = Some xs,
                         fig_ticktext = Some tt, fig_tickangle = Some 45,
                         fig_showlegend = Some False, fig_margin = Some (50, 50, 50, 50),
                         fig_legend = None\<rparr>)))"
  by (simp add: bar_figure_def px_bar_def px_column_def get_column_def update_traces_def
      Figure_def px_trace_def FORMAT_TEMPLATES_def CHART_DEFAULTS_def
      split: option.splits sum.splits)

lemma plot_bar_chart_eq:
  "plot_bar_chart df x_axis y_values title color value_column scale_factor n_points =
     (case map_of df value_column of
        None \<Rightarrow> Inl (ColumnNotFoundError value_column)
      | Some sv \<Rightarrow>
          (case div_series value_column sv scale_factor of
             Inl e \<Rightarrow> Inl e
           | Inr sv' \<Rightarrow>
               (case scaled_column df value_column sv' x_axis of
                  None \<Rightarrow> Inl (ValueError x_axis)
                | Some xs \<Rightarrow>
                    (case scaled_column df value_column sv' y_values of
                       None \<Rightarrow> Inl (ValueError y_values)
                     | Some ys \<Rightarrow>
                         (case strftime_all ''%B %Y'' (tail_series n_points xs) of
                            Inl e \<Rightarrow> Inl e
                          | Inr tt \<Rightarrow>
                              Inr \<lparr>fig_traces =
                                     [\<lparr>tr_kind = Bar, tr_x = tail_series n_points xs,
                                       tr_y = tail_series n_points ys, tr_text = None,
                                       tr_name = None, tr_color = Some color,
                                       tr_line_shape = None, tr_mode = None,
                                       tr_textposition = Some ''outside'',
                                       tr_texttemplate =
                                         Some (bold_white ''${text:,.0f}M'')\<rparr>],
                                   fig_title = Some title,
                                   fig_tickvals = Some (tail_series n_points xs),
                                   fig_ticktext = Some tt, fig_tickangle = Some 45,
                                   fig_showlegend = Some False,
                                   fig_margin = Some (50, 50, 50, 50),
                                   fig_legend = None\<rparr>)))))"
proof (cases "map_of df value_column")
  case None
  then show ?thesis
    by (simp add: plot_bar_chart_def with_columns_div_def get_column_def)
next
  case (Some sv)
  show ?thesis
  proof (cases "div_series value_column sv scale_factor")
    case (Inl e)
    then show ?thesis
      by (simp add: plot_bar_chart_def with_columns_div_def get_column_def Some)
  next
    case (Inr sv')
    have cols: "map_of (tail_df (map (\<lambda>(c', col). if c' = value_column then (c', sv')
          else (c', col)) df) n_points) c
        = map_option (tail_series n_points) (scaled_column df value_column sv' c)" for c
      by (simp add: map_of_tail_df map_of_replace Some scaled_column_def)
    have scaled: "with_columns_div df value_column scale_factor
        = Inr (map (\<lambda>(c', col). if c' = value_column then (c', sv') else (c', col)) df)"
      by (simp add: with_columns_div_def get_column_def Some Inr)
    show ?thesis
      unfolding plot_bar_chart_def scaled sum.case Let_def bar_figure_eq cols
      by (simp add: Some Inr split: option.splits)
  qed
qed

section \<open>Windows, tick labels and evaluation\<close>

lemma sorted_window: "sorted_series (window k n k)"
  unfolding window_def by (rule sorted_tail_series) (rule sorted_gather_arg_sort)

lemma len_window:
  "len (window k n s) = (if n < 0 then len k - nat (- n) else min (nat n) (len k))"
  by (simp add: window_def len_tail_series len_gather length_arg_sort)

lemma window_DateS: "window (DateS ds) n (DateS ds) = DateS (tail_list n (sort ds))"
  by (simp add: window_def map_sort_key map_nth)

lemma tail_list_nonpos:
  "n \<le> 0 \<Longrightarrow> tail_list n xs = (if n = 0 then [] else drop (nat (- n)) xs)"
  by (simp add: tail_list_def)

lemma strftime_all_DateS:
  "None \<notin> set ds \<Longrightarrow> strftime_all fmt (DateS ds) = Inr (map (\<lambda>d. strftime fmt (the d)) ds)"
  by (simp add: strftime_all_def strftime_dates_total)

lemma strftime_all_DateS_Inr:
  "strftime_all fmt (DateS ds) = Inr tt \<Longrightarrow>
     None \<notin> set ds \<and> tt = map (\<lambda>d. strftime fmt (the d)) ds"
  by (simp add: strftime_all_def strftime_dates_Inr)


lemmas eval_defs = scenario_def scaled_column_def xs_of_def ys_of_def templates_of_def
  ticktext_of_def tickvals_of_def tail_list_def strftime_all_def window_def

section \<open>What a returned figure holds\<close>

lemma observers_Inr:
  "xs_of r = Inr xs \<longleftrightarrow> (\<exists>fig. r = Inr fig \<and> xs = map tr_x (fig_traces fig))"
  "ys_of r = Inr ys \<longleftrightarrow> (\<exists>fig. r = Inr fig \<and> ys = map tr_y (fig_traces fig))"
  "templates_of r = Inr ts \<longleftrightarrow> (\<exists>fig. r = Inr fig \<and> ts = map tr_texttemplate (fig_traces fig))"
  "ticktext_of r = Inr tt \<longleftrightarrow> (\<exists>fig. r = Inr fig \<and> tt = fig_ticktext fig)"
  "tickvals_of r = Inr tv \<longleftrightarrow> (\<exists>fig. r = Inr fig \<and> tv = fig_tickvals fig)"
  by (cases r; auto simp: xs_of_def ys_of_def templates_of_def ticktext_of_def tickvals_of_def)+

lemma plot_bar_chart_Inr:
  assumes "plot_bar_chart df x_axis y_values title color value_column scale_factor n_points
      = Inr fig"
  shows "\<exists>sv sv' xs ys tt.
      map_of df value_column = Some sv \<and> div_series value_column sv scale_factor = Inr sv'
      \<and> scaled_column df value_column sv' x_axis = Some xs
      \<and> scaled_column df value_column sv' y_values = Some ys
      \<and> strftime_all ''%B %Y'' (tail_series n_points xs) = Inr tt
      \<and> map tr_x (fig_traces fig) = [tail_series n_points xs]
      \<and> map tr_y (fig_traces fig) = [tail_series n_points ys]
      \<and> map tr_texttemplate (fig_traces fig) = [Some (bold_white ''${text:,.0f}M'')]
      \<and> fig_tickvals fig = Some (tail_series n_points xs)
      \<and> fig_ticktext fig = Some tt"
  using assms
  by (auto simp: plot_bar_chart_eq split: option.splits sum.splits)

lemma plot_line_chart_Inr:
  assumes "plot_line_chart df date_col y_values y_format title color n_points tick_angle
      date_format = Inr fig"
  shows "\<exists>k ys tt.
      map_of df date_col = Some k \<and> map_of df y_values = Some ys
      \<and> strftime_all date_format (window k n_points k) = Inr tt
      \<and> map tr_x (fig_traces fig) = [window k n_points k]
      \<and> map tr_y (fig_traces fig) = [window k n_points ys]
      \<and> map tr_texttemplate (fig_traces fig) = [Some (bold_white (''%'' @ y_format))]
      \<and> fig_tickvals fig = Some (window k n_points k)
      \<and> fig_ticktext fig = Some tt"
  using assms
  by (auto simp: plot_line_chart_eq split: option.splits sum.splits)

lemma plot_dual_line_chart_Inr:
  assumes "plot_dual_line_chart df date_col y1_col y2_col title y1_name y2_name y1_color
      y2_color y1_format y2_format date_format tick_angle n_points = Inr fig"
  shows "\<exists>k s1 s2 tt.
      map_of df date_col = Some k \<and> map_of df y1_col = Some s1 \<and> map_of df y2_col = Some s2
      \<and> strftime_all date_format (window k n_points k) = Inr tt
      \<and> map tr_x (fig_traces fig) = [window k n_points k, window k n_points k]
      \<and> map tr_y (fig_traces fig) = [window k n_points s1, window k n_points s2]
      \<and> map tr_text (fig_traces fig)
          = [Some (window k n_points s1), Some (window k n_points s2)]
      \<and> map tr_texttemplate (fig_traces fig)
          = [Some (''%'' @ y1_format), Some (''%'' @ y2_format)]
      \<and> fig_tickvals fig = Some (window k n_points k)
      \<and> fig_ticktext fig = Some tt"
  using assms
  by (auto simp: plot_dual_line_chart_eq split: option.splits sum.splits)

lemma map_Some_the: "None \<notin> set xs \<Longrightarrow> map Some (map the xs) = xs"
  by (induction xs) auto

section \<open>The builders over the store, in terms of the builders\<close>

lemma plot_line_chart_ref_eq:
  "plot_line_chart_ref st df date_col y_values y_format title color n_points tick_angle
       date_format =
     (plot_line_chart (st ! df) date_col y_values y_format title color n_points tick_angle
        date_format,
      case sort_df (st ! df) date_col of
        Inl e \<Rightarrow> st
      | Inr sorted_data \<Rightarrow> st @ [sorted_data, tail_df sorted_data n_points])"
  by (simp add: plot_line_chart_ref_def plot_line_chart_def sort_ref_def tail_ref_def alloc_def
      nth_append split: sum.splits)

lemma plot_dual_line_chart_ref_eq:
  "plot_dual_line_chart_ref st df date_col y1_col y2_col title y1_name y2_name y1_color y2_color
       y1_format y2_format date_format tick_angle n_points =
     (plot_dual_line_chart (st ! df) date_col y1_col y2_col title y1_name y2_name y1_color
        y2_color y1_format y2_format date_format tick_angle n_points,
      case sort_df (st ! df) date_col of
        Inl e \<Rightarrow> st
      | Inr sorted_data \<Rightarrow> st @ [sorted_data, tail_df sorted_data n_points])"
  by (simp add: plot_dual_line_chart_ref_def plot_dual_line_chart_def sort_ref_def tail_ref_def
      alloc_def nth_append split: sum.splits)

lemma plot_bar_chart_ref_eq:
  "plot_bar_chart_ref st df x_axis y_values title color value_column scale_factor n_points =
     (plot_bar_chart (st ! df) x_axis y_values title color value_column scale_factor n_points,
      case with_columns_div (st ! df) value_column scale_factor of
        Inl e \<Rightarrow> st
      | Inr scaled \<Rightarrow> st @ [scaled, tail_df scaled n_points])"
  by (simp add: plot_bar_chart_ref_def plot_bar_chart_def with_columns_div_ref_def tail_ref_def
      alloc_def nth_append split: sum.splits)

section \<open>Lengths of the year fields\<close>

lemma length_show_nat_ge: "1 \<le> length (show_nat n)"
  by (subst show_nat.simps) simp

lemma length_pad2: "n < 100 \<Longrightarrow> length (pad2 n) = 2"
proof -
  assume n: "n < 100"
  have one: "m < 10 \<Longrightarrow> length (show_nat m) = 1" for m
    by (subst show_nat.simps) simp
  show ?thesis
  proof (cases "n < 10")
    case True
    then show ?thesis by (simp add: pad2_def one)
  next
    case False
    with n have "n div 10 < 10" by simp
    with False show ?thesis
      by (simp add: pad2_def one show_nat.simps [of n])
  qed
qed

lemma length_show_nat_100: "100 \<le> n \<Longrightarrow> 3 \<le> length (show_nat n)"
proof -
  assume n: "100 \<le> n"
  then have a: "\<not> n < 10" and b: "\<not> n div 10 < 10" by simp_all
  show ?thesis
    using length_show_nat_ge [of "n div 10 div 10"]
    by (simp add: show_nat.simps [of n] show_nat.simps [of "n div 10"] a b)
qed

lemma strftime_full_year: "strftime ''%B %Y'' (yr, mo, dy) = month_name mo @ '' '' @ show_nat yr"
  by simp

lemma strftime_short_year:
  "strftime ''%B %y'' (yr, mo, dy) = month_name mo @ '' '' @ pad2 (yr mod 100)"
  by simp

section \<open>The window of the line chart\<close>

text \<open>
  C1, as the code has it. For a frame whose date column is a Date column without nulls and
  whose value column exists, and for every positive \<open>n_points\<close>, \<open>plot_line_chart\<close> returns a
  figure (it raises nothing) with one trace of exactly \<open>min n_points (height df)\<close> points. In
  particular a frame with no more than \<open>n_points\<close> rows gives all its rows, in date order.
  The frame need not even have a row.
\<close>

theorem line_chart_point_count:
  assumes "wf_df df" and "map_of df date_col = Some (DateS ds)" and "None \<notin> set ds"
    and "y_values \<in> set (columns df)" and "0 < n_points"
  shows "\<exists>fig t. plot_line_chart df date_col y_values y_format title color n_points tick_angle
            date_format = Inr fig
          \<and> fig_traces fig = [t]
          \<and> len (tr_x t) = min (nat n_points) (height df)
          \<and> len (tr_y t) = min (nat n_points) (height df)
          \<and> (height df \<le> nat n_points \<longrightarrow> tr_x t = DateS (sort ds))"
proof -
  obtain ys where ys: "map_of df y_values = Some ys"
    using assms(4) in_columns_map_of by blast
  have h: "length ds = height df" "len ys = height df"
    using wf_df_len [OF assms(1) assms(2)] wf_df_len [OF assms(1) ys] by simp_all
  have all_rows: "height df \<le> nat n_points \<longrightarrow> tail_list n_points (sort ds) = sort ds"
    using assms(5) h(1) by (simp add: tail_list_def)
  show ?thesis
    using assms(5) h all_rows
    by (simp add: plot_line_chart_ok [OF assms(2) assms(3) ys] length_tail_list len_tail_series
        len_gather)
qed

theorem line_chart_point_count_witness:
  "wf_df scenario \<and> map_of scenario ''date''
       = Some (DateS [Some (2022, 3, 1), Some (2022, 1, 1), Some (2022, 2, 1)])
   \<and> ''Value1'' \<in> set (columns scenario)
   \<and> (\<exists>fig t. plot_line_chart scenario ''date'' ''Value1'' ''{text:,.0f}'' ''Line Chart''
          ''#FF6200'' 12 45 ''%B %y'' = Inr fig
        \<and> fig_traces fig = [t] \<and> len (tr_x t) = 3 \<and> len (tr_y t) = 3
        \<and> tr_x t = DateS [Some (2022, 1, 1), Some (2022, 2, 1), Some (2022, 3, 1)])"
proof -
  have wf: "wf_df scenario"
    by (simp add: scenario_def wf_df_def columns_def height_def)
  have dates: "map_of scenario ''date''
      = Some (DateS [Some (2022, 3, 1), Some (2022, 1, 1), Some (2022, 2, 1)])"
    by (simp add: scenario_def)
  have y: "''Value1'' \<in> set (columns scenario)"
    by (simp add: scenario_def columns_def)
  have h: "min (nat 12) (height scenario) = 3" "height scenario \<le> nat 12"
    by (simp_all add: scenario_def height_def)
  have srt: "sort [Some (2022, 3, 1), Some (2022, 1, 1), Some (2022, 2, 1 :: nat)]
      = [Some (2022 :: nat, 1 :: nat, 1), Some (2022, 2, 1), Some (2022, 3, 1)]"
    by simp
  show ?thesis
    using line_chart_point_count [OF wf dates _ y, of 12 "''{text:,.0f}''" "''Line Chart''"
        "''#FF6200''" 45 "''%B %y''"] wf dates y h(2)
    unfolding h(1) srt by simp
qed

text \<open>
  C1 as stated fails: with both named columns present, at least one row and a positive
  \<open>n_points\<close>, the call still raises \<open>AttributeError\<close> when the column named as the date
  column is not a Date column (here the Int column \<open>Value2\<close>), or holds a null inside the
  window: \<^verbatim>\<open>strftime\<close> is asked of a value that is no date.
\<close>

theorem line_chart_raises_on_non_dates:
  "''Value2'' \<in> set (columns scenario) \<and> ''Value1'' \<in> set (columns scenario)
   \<and> height scenario = 3
   \<and> plot_line_chart scenario ''Value2'' ''Value1'' ''{text:,.0f}'' ''Line Chart'' ''#FF6200''
        12 45 ''%B %y'' = Inl AttributeError
   \<and> ''date'' \<in> set (columns null_date) \<and> ''Value1'' \<in> set (columns null_date)
   \<and> height null_date = 2
   \<and> plot_line_chart null_date ''date'' ''Value1'' ''{text:,.0f}'' ''Line Chart'' ''#FF6200''
        12 45 ''%B %y'' = Inl AttributeError"
  by (simp add: plot_line_chart_eq null_date_def eval_defs columns_def height_def)

section \<open>Order of the points\<close>

text \<open>
  C2, as the code has it. Whatever the row order of the input, every x array of a figure
  returned by \<open>plot_line_chart\<close> or \<open>plot_dual_line_chart\<close> is in ascending order: both
  sort the frame by the date column before they take the window, and the y values are
  gathered by the same row permutation (\<open>window\<close>). \<open>plot_bar_chart\<close> has no sort: its x
  array is the last \<open>n_points\<close> entries of the input column, in the input's row order.
\<close>

theorem line_and_dual_sorted_bar_in_row_order:
  "(xs_of (plot_line_chart df date_col y_values y_format title color n_points tick_angle
        date_format) = Inr xs \<longrightarrow> list_all sorted_series xs)
   \<and> (xs_of (plot_dual_line_chart df date_col y1_col y2_col title y1_name y2_name y1_color
        y2_color y1_format y2_format date_format tick_angle n_points) = Inr xs2
      \<longrightarrow> list_all sorted_series xs2)
   \<and> (xs_of (plot_bar_chart df x_axis y_values title color value_column scale_factor n_points)
        = Inr xs3 \<and> x_axis \<noteq> value_column
      \<longrightarrow> (\<exists>col. map_of df x_axis = Some col \<and> xs3 = [tail_series n_points col]))"
proof (intro conjI impI)
  assume "xs_of (plot_line_chart df date_col y_values y_format title color n_points tick_angle
      date_format) = Inr xs"
  then show "list_all sorted_series xs"
    by (auto simp: xs_of_def plot_line_chart_eq sorted_window split: option.splits sum.splits)
next
  assume "xs_of (plot_dual_line_chart df date_col y1_col y2_col title y1_name y2_name y1_color
        y2_color y1_format y2_format date_format tick_angle n_points) = Inr xs2"
  then show "list_all sorted_series xs2"
    by (auto simp: xs_of_def plot_dual_line_chart_eq sorted_window
        split: option.splits sum.splits)
next
  assume "xs_of (plot_bar_chart df x_axis y_values title color value_column scale_factor
        n_points) = Inr xs3 \<and> x_axis \<noteq> value_column"
  then show "\<exists>col. map_of df x_axis = Some col \<and> xs3 = [tail_series n_points col]"
    by (auto simp: xs_of_def plot_bar_chart_eq scaled_column_def
        split: option.splits sum.splits)
qed

text \<open>The three builders on the sample table, with the page's arguments.\<close>

lemma scenario_line_xs:
  "xs_of (plot_line_chart scenario ''date'' ''Value1'' ''{text:,.0f}'' ''Line Chart''
      ''#FF6200'' 12 45 ''%B %y'')
    = Inr [DateS [Some (2022, 1, 1), Some (2022, 2, 1), Some (2022, 3, 1)]]"
  by (simp add: plot_line_chart_eq eval_defs)

lemma scenario_dual_xs:
  "xs_of (plot_dual_line_chart scenario ''date'' ''Value1'' ''Value2'' ''Comparative Analysis''
      ''Primary Metric'' ''Secondary Metric'' ''#0131FF'' ''#C7D2FF'' ''{text:,.0f}''
      ''{text:.1%}'' ''%B %y'' 45 12)
    = Inr [DateS [Some (2022, 1, 1), Some (2022, 2, 1), Some (2022, 3, 1)],
           DateS [Some (2022, 1, 1), Some (2022, 2, 1), Some (2022, 3, 1)]]"
  by (simp add: plot_dual_line_chart_eq eval_defs)

lemma scenario_bar_xs:
  "xs_of (plot_bar_chart scenario ''date'' ''Monto_Efectivo'' ''Bar Chart'' ''#FF6200''
      ''Monto_Efectivo'' 1000000 12)
    = Inr [DateS [Some (2022, 3, 1), Some (2022, 1, 1), Some (2022, 2, 1)]]"
  by (simp add: plot_bar_chart_eq eval_defs)

theorem line_and_dual_sorted_bar_in_row_order_witness:
  "xs_of (plot_line_chart scenario ''date'' ''Value1'' ''{text:,.0f}'' ''Line Chart''
      ''#FF6200'' 12 45 ''%B %y'')
     = Inr [DateS [Some (2022, 1, 1), Some (2022, 2, 1), Some (2022, 3, 1)]]
   \<and> list_all sorted_series [DateS [Some (2022, 1, 1), Some (2022, 2, 1), Some (2022, 3, 1)]]
   \<and> xs_of (plot_bar_chart scenario ''date'' ''Monto_Efectivo'' ''Bar Chart'' ''#FF6200''
      ''Monto_Efectivo'' 1000000 12)
     = Inr [tail_series 12 (DateS [Some (2022, 3, 1), Some (2022, 1, 1), Some (2022, 2, 1)])]"
  using line_and_dual_sorted_bar_in_row_order [of scenario "''date''" "''Value1''"
      "''{text:,.0f}''" "''Line Chart''" "''#FF6200''" 12 45 "''%B %y''"
      "[DateS [Some (2022, 1, 1), Some (2022, 2, 1), Some (2022, 3, 1)]]"]
    scenario_line_xs scenario_bar_xs
  by (simp add: tail_list_def)

text \<open>
  C2 as stated fails for \<open>plot_bar_chart\<close>: on the sample table its x array is in the
  table's row order, which is not ascending.
\<close>

theorem bar_chart_not_sorted:
  "xs_of (plot_bar_chart scenario ''date'' ''Monto_Efectivo'' ''Bar Chart'' ''#FF6200''
      ''Monto_Efectivo'' 1000000 12)
     = Inr [DateS [Some (2022, 3, 1), Some (2022, 1, 1), Some (2022, 2, 1)]]
   \<and> \<not> list_all sorted_series
         [DateS [Some (2022, 3, 1), Some (2022, 1, 1), Some (2022, 2, 1)]]"
  using scenario_bar_xs by (simp add: less_eq_prod_def less_eq_option_def)

section \<open>Window sizes that are not positive\<close>

text \<open>
  C3, as the code has it. No builder checks \<open>n_points\<close>, and \<^verbatim>\<open>tail\<close> accepts every integer:
  for \<open>n_points \<le> 0\<close> and a frame with the named columns (the date column holding dates
  only, the value column numeric) each builder returns a figure. Its window is empty for
  \<open>n_points = 0\<close> and is all rows but the first \<open>|n_points|\<close> for a negative \<open>n_points\<close>,
  of the sorted frame for the line builders and of the input for the bar builder.
\<close>

theorem nonpositive_n_points_returns_chart:
  assumes "n_points \<le> 0"
    and "map_of df date_col = Some (DateS ds)" and "None \<notin> set ds"
    and "map_of df y1_col = Some s1" and "map_of df y2_col = Some s2"
    and "map_of df value_column = Some sv" and "numeric sv"
  shows "xs_of (plot_line_chart df date_col y1_col y_format title color n_points tick_angle
            date_format)
          = Inr [DateS (if n_points = 0 then [] else drop (nat (- n_points)) (sort ds))]
    \<and> xs_of (plot_dual_line_chart df date_col y1_col y2_col title y1_name y2_name y1_color
            y2_color y1_format y2_format date_format tick_angle n_points)
          = Inr [DateS (if n_points = 0 then [] else drop (nat (- n_points)) (sort ds)),
                 DateS (if n_points = 0 then [] else drop (nat (- n_points)) (sort ds))]
    \<and> xs_of (plot_bar_chart df date_col y1_col title color value_column scale_factor n_points)
          = Inr [DateS (if n_points = 0 then [] else drop (nat (- n_points)) ds)]"
proof (intro conjI)
  let ?w = "tail_list n_points (sort ds)"
  have w: "None \<notin> set ?w"
    using assms(3) set_tail_list [of n_points "sort ds"] by auto
  have w': "None \<notin> set (tail_list n_points ds)"
    using assms(3) set_tail_list [of n_points ds] by auto
  have win: "window (DateS ds) n_points (DateS ds) = DateS ?w"
    by (rule window_DateS)
  show "xs_of (plot_line_chart df date_col y1_col y_format title color n_points tick_angle
            date_format)
          = Inr [DateS (if n_points = 0 then [] else drop (nat (- n_points)) (sort ds))]"
    using assms(1) w
    by (simp add: xs_of_def plot_line_chart_eq assms(2,4) win strftime_all_DateS
        tail_list_nonpos)
  show "xs_of (plot_dual_line_chart df date_col y1_col y2_col title y1_name y2_name y1_color
            y2_color y1_format y2_format date_format tick_angle n_points)
          = Inr [DateS (if n_points = 0 then [] else drop (nat (- n_points)) (sort ds)),
                 DateS (if n_points = 0 then [] else drop (nat (- n_points)) (sort ds))]"
    using assms(1) w
    by (simp add: xs_of_def plot_dual_line_chart_eq assms(2,4,5) win strftime_all_DateS
        tail_list_nonpos)
  have vc: "date_col \<noteq> value_column"
    using assms(2,6,7) by auto
  obtain sv' where sv': "div_series value_column sv scale_factor = Inr sv'"
    using assms(7) by (cases sv) simp_all
  show "xs_of (plot_bar_chart df date_col y1_col title color value_column scale_factor n_points)
          = Inr [DateS (if n_points = 0 then [] else drop (nat (- n_points)) ds)]"
    using assms(1) w' vc
    by (simp add: xs_of_def plot_bar_chart_eq assms(2,4,6) sv' scaled_column_def
        strftime_all_DateS tail_list_nonpos)
qed

theorem nonpositive_n_points_returns_chart_witness:
  "(- 1 :: int) \<le> 0
   \<and> map_of scenario ''date''
       = Some (DateS [Some (2022, 3, 1), Some (2022, 1, 1), Some (2022, 2, 1)])
   \<and> map_of scenario ''Monto_Efectivo''
       = Some (IntS [Some 2500000, Some 1000000, Some 4000000])
   \<and> numeric (IntS [Some 2500000, Some 1000000, Some 4000000])
   \<and> xs_of (plot_line_chart scenario ''date'' ''Value1'' ''{text:,.0f}'' ''Bar Chart''
        ''#FF6200'' (- 1) 45 ''%B %y'')
       = Inr [DateS [Some (2022, 2, 1), Some (2022, 3, 1)]]
   \<and> xs_of (plot_bar_chart scenario ''date'' ''Value1'' ''Bar Chart'' ''#FF6200''
        ''Monto_Efectivo'' 1000000 (- 1))
       = Inr [DateS [Some (2022, 1, 1), Some (2022, 2, 1)]]"
proof -
  have dates: "map_of scenario ''date''
      = Some (DateS [Some (2022, 3, 1), Some (2022, 1, 1), Some (2022, 2, 1)])"
    and v1: "map_of scenario ''Value1'' = Some (IntS [Some 150, Some 100, Some 200])"
    and v2: "map_of scenario ''Value2'' = Some (IntS [Some 900, Some 1200, Some 800])"
    and me: "map_of scenario ''Monto_Efectivo''
      = Some (IntS [Some 2500000, Some 1000000, Some 4000000])"
    by (simp_all add: scenario_def)
  have srt: "sort [Some (2022, 3, 1), Some (2022, 1, 1), Some (2022, 2, 1 :: nat)]
      = [Some (2022 :: nat, 1 :: nat, 1), Some (2022, 2, 1), Some (2022, 3, 1)]"
    by simp
  show ?thesis
    using nonpositive_n_points_returns_chart [OF _ dates _ v1 v2 me,
        where n_points = "- 1" and y_format = "''{text:,.0f}''" and title = "''Bar Chart''"
          and color = "''#FF6200''" and tick_angle = 45 and date_format = "''%B %y''"
          and scale_factor = 1000000]
      dates me
    unfolding srt by simp
qed

text \<open>
  C3 as stated fails: with \<open>n_points = 0\<close> each builder returns a figure with empty arrays,
  and with \<open>n_points = - 2\<close> the line chart of the three-row sample has one point.
\<close>

theorem nonpositive_n_points_no_error:
  "xs_of (plot_line_chart scenario ''date'' ''Value1'' ''{text:,.0f}'' ''Line Chart''
        ''#FF6200'' 0 45 ''%B %y'') = Inr [DateS []]
   \<and> xs_of (plot_dual_line_chart scenario ''date'' ''Value1'' ''Value2''
        ''Comparative Analysis'' ''Primary Metric'' ''Secondary Metric'' ''#0131FF''
        ''#C7D2FF'' ''{text:,.0f}'' ''{text:.1%}'' ''%B %y'' 45 0) = Inr [DateS [], DateS []]
   \<and> xs_of (plot_bar_chart scenario ''date'' ''Monto_Efectivo'' ''Bar Chart'' ''#FF6200''
        ''Monto_Efectivo'' 1000000 0) = Inr [DateS []]
   \<and> xs_of (plot_line_chart scenario ''date'' ''Value1'' ''{text:,.0f}'' ''Line Chart''
        ''#FF6200'' (- 2) 45 ''%B %y'') = Inr [DateS [Some (2022, 3, 1)]]"
  by (simp add: plot_line_chart_eq plot_dual_line_chart_eq plot_bar_chart_eq eval_defs)

section \<open>Missing columns\<close>




section \<open>Scaling in the bar chart\<close>

text \<open>
  C5, as the code has it. \<open>plot_bar_chart\<close> divides the column \<open>value_column\<close> by
  \<open>scale_factor\<close> over the whole frame and only then takes the last \<open>n_points\<close> rows. When
  the plotted column \<open>y_values\<close> is that column, the y array of the returned figure is the
  window of the divided column; its text template is the currency template (in the bold white
  tag). With \<open>scale_factor = 1000000\<close> the value 2500000 becomes 5/2, which binary64
  division gives exactly. The trace gets no text array (\<^verbatim>\<open>px.bar\<close> is called without
  \<^verbatim>\<open>text\<close>), and what plotly draws from the template is not modelled.
\<close>

theorem bar_chart_scales_then_windows:
  assumes "ys_of (plot_bar_chart df x_axis value_column title color value_column scale_factor
      n_points) = Inr ys"
  shows "(\<exists>sv sv'. map_of df value_column = Some sv
            \<and> div_series value_column sv scale_factor = Inr sv'
            \<and> ys = [tail_series n_points sv'])
    \<and> templates_of (plot_bar_chart df x_axis value_column title color value_column scale_factor
          n_points) = Inr [Some (bold_white (the (FORMAT_TEMPLATES ''currency'')))]
    \<and> div_series value_column (IntS [Some 2500000]) 1000000 = Inr (FloatS [Some (Fin (5 / 2))])"
proof -
  obtain fig where fig: "plot_bar_chart df x_axis value_column title color value_column
      scale_factor n_points = Inr fig" and ys: "ys = map tr_y (fig_traces fig)"
    using assms unfolding observers_Inr by blast
  from plot_bar_chart_Inr [OF fig] ys show ?thesis
    by (auto simp: fig templates_of_def scaled_column_def FORMAT_TEMPLATES_def)
qed

lemma scenario_bar_ys_all:
  "ys_of (plot_bar_chart scenario ''date'' ''Monto_Efectivo'' ''Bar Chart'' ''#FF6200''
      ''Monto_Efectivo'' 1000000 12)
    = Inr [FloatS [Some (Fin (5 / 2)), Some (Fin 1), Some (Fin 4)]]"
  by (simp add: plot_bar_chart_eq eval_defs)

theorem bar_chart_scales_then_windows_witness:
  "ys_of (plot_bar_chart scenario ''date'' ''Monto_Efectivo'' ''Bar Chart'' ''#FF6200''
      ''Monto_Efectivo'' 1000000 12)
     = Inr [FloatS [Some (Fin (5 / 2)), Some (Fin 1), Some (Fin 4)]]
   \<and> templates_of (plot_bar_chart scenario ''date'' ''Monto_Efectivo'' ''Bar Chart'' ''#FF6200''
      ''Monto_Efectivo'' 1000000 12)
     = Inr [Some (bold_white ''${text:,.0f}M'')]"
  using bar_chart_scales_then_windows [OF scenario_bar_ys_all] scenario_bar_ys_all
  by (simp add: FORMAT_TEMPLATES_def)

text \<open>
  C5 as stated fails when \<open>y_values\<close> names another column: the plotted values are that
  column's, unscaled (here \<open>Value1\<close>, while \<open>Monto_Efectivo\<close> is the column scaled).
\<close>

theorem bar_chart_plots_unscaled_other_column:
  "ys_of (plot_bar_chart scenario ''date'' ''Value1'' ''Bar Chart'' ''#FF6200''
      ''Monto_Efectivo'' 1000000 12)
     = Inr [IntS [Some 150, Some 100, Some 200]]
   \<and> map_of scenario ''Value1'' = Some (IntS [Some 150, Some 100, Some 200])"
  by (simp add: plot_bar_chart_eq eval_defs)

section \<open>Fixed tick format of the bar chart\<close>

text \<open>
  C6. The tick labels of \<open>plot_bar_chart\<close> are \<^verbatim>\<open>strftime("%B %Y")\<close> of its tick values,
  for every argument list: the builder has no format parameter. The tick labels of
  \<open>plot_line_chart\<close> are \<^verbatim>\<open>strftime(date_format)\<close> of its tick values, for the format the
  caller passes; its default is \<^verbatim>\<open>%B %y\<close>. The two formats differ, and give different
  labels for every date from the year 100 on (month and full year against month and
  two-digit year).
\<close>

theorem bar_chart_tick_format_fixed:
  "(ticktext_of (plot_bar_chart df x_axis y_values title color value_column scale_factor
        n_points) = Inr tt
      \<longrightarrow> (\<exists>tv labels. tickvals_of (plot_bar_chart df x_axis y_values title color value_column
                  scale_factor n_points) = Inr (Some tv)
              \<and> tt = Some labels \<and> strftime_all ''%B %Y'' tv = Inr labels))
   \<and> (ticktext_of (plot_line_chart df date_col y_col y_format title' color' n tick_angle
        date_format) = Inr tt'
      \<longrightarrow> (\<exists>tv labels. tickvals_of (plot_line_chart df date_col y_col y_format title' color' n
                  tick_angle date_format) = Inr (Some tv)
              \<and> tt' = Some labels \<and> strftime_all date_format tv = Inr labels))
   \<and> d_date_format CHART_DEFAULTS = ''%B %y''
   \<and> (100 \<le> yr \<longrightarrow>
        strftime ''%B %Y'' (yr, mo, dy) \<noteq> strftime (d_date_format CHART_DEFAULTS) (yr, mo, dy))"
proof (intro conjI impI)
  assume "ticktext_of (plot_bar_chart df x_axis y_values title color value_column scale_factor
        n_points) = Inr tt"
  then obtain fig where fig: "plot_bar_chart df x_axis y_values title color value_column
      scale_factor n_points = Inr fig" and tt: "tt = fig_ticktext fig"
    unfolding observers_Inr by blast
  from plot_bar_chart_Inr [OF fig] tt
  show "\<exists>tv labels. tickvals_of (plot_bar_chart df x_axis y_values title color value_column
                  scale_factor n_points) = Inr (Some tv)
              \<and> tt = Some labels \<and> strftime_all ''%B %Y'' tv = Inr labels"
    by (auto simp: fig tickvals_of_def)
next
  assume "ticktext_of (plot_line_chart df date_col y_col y_format title' color' n tick_angle
        date_format) = Inr tt'"
  then obtain fig where fig: "plot_line_chart df date_col y_col y_format title' color' n
      tick_angle date_format = Inr fig" and tt: "tt' = fig_ticktext fig"
    unfolding observers_Inr by blast
  from plot_line_chart_Inr [OF fig] tt
  show "\<exists>tv labels. tickvals_of (plot_line_chart df date_col y_col y_format title' color' n
                  tick_angle date_format) = Inr (Some tv)
              \<and> tt' = Some labels \<and> strftime_all date_format tv = Inr labels"
    by (auto simp: fig tickvals_of_def)
next
  show "d_date_format CHART_DEFAULTS = ''%B %y''"
    by (simp add: CHART_DEFAULTS_def)
next
  assume yr: "100 \<le> yr"
  have "length (show_nat yr) \<noteq> length (pad2 (yr mod 100))"
    using length_show_nat_100 [OF yr] length_pad2 [of "yr mod 100"] by simp
  then have "show_nat yr \<noteq> pad2 (yr mod 100)"
    by auto
  then show "strftime ''%B %Y'' (yr, mo, dy)
      \<noteq> strftime (d_date_format CHART_DEFAULTS) (yr, mo, dy)"
    unfolding CHART_DEFAULTS_def chart_defaults.simps strftime_full_year strftime_short_year
    by simp
qed

lemma scenario_bar_ticktext:
  "ticktext_of (plot_bar_chart scenario ''date'' ''Monto_Efectivo'' ''Bar Chart'' ''#FF6200''
      ''Monto_Efectivo'' 1000000 2) = Inr (Some [''January 2022'', ''February 2022''])"
  by (simp add: plot_bar_chart_eq eval_defs show_nat.simps month_name_def
      month_names_def digit_char_def)

theorem bar_chart_tick_format_fixed_witness:
  "ticktext_of (plot_bar_chart scenario ''date'' ''Monto_Efectivo'' ''Bar Chart'' ''#FF6200''
      ''Monto_Efectivo'' 1000000 2) = Inr (Some [''January 2022'', ''February 2022''])
   \<and> (100 :: nat) \<le> 2022
   \<and> strftime ''%B %Y'' (2022, 1, 1) \<noteq> strftime (d_date_format CHART_DEFAULTS) (2022, 1, 1)
   \<and> (\<exists>tv. tickvals_of (plot_bar_chart scenario ''date'' ''Monto_Efectivo'' ''Bar Chart''
          ''#FF6200'' ''Monto_Efectivo'' 1000000 2) = Inr (Some tv)
        \<and> strftime_all ''%B %Y'' tv = Inr [''January 2022'', ''February 2022''])"
proof -
  note fixed = bar_chart_tick_format_fixed [where df = scenario and x_axis = "''date''"
      and y_values = "''Monto_Efectivo''" and title = "''Bar Chart''" and color = "''#FF6200''"
      and value_column = "''Monto_Efectivo''" and scale_factor = 1000000 and n_points = 2
      and tt = "Some [''January 2022'', ''February 2022'']" and yr = 2022 and mo = 1 and dy = 1]
  have years: "(100 :: nat) \<le> 2022"
    by simp
  from fixed years
  have differ: "strftime ''%B %Y'' (2022, 1, 1)
      \<noteq> strftime (d_date_format CHART_DEFAULTS) (2022, 1, 1)"
    by blast
  from fixed scenario_bar_ticktext
  have "\<exists>tv labels. tickvals_of (plot_bar_chart scenario ''date'' ''Monto_Efectivo''
          ''Bar Chart'' ''#FF6200'' ''Monto_Efectivo'' 1000000 2) = Inr (Some tv)
        \<and> Some [''January 2022'', ''February 2022''] = Some labels
        \<and> strftime_all ''%B %Y'' tv = Inr labels"
    by blast
  then have "\<exists>tv. tickvals_of (plot_bar_chart scenario ''date'' ''Monto_Efectivo''
          ''Bar Chart'' ''#FF6200'' ''Monto_Efectivo'' 1000000 2) = Inr (Some tv)
        \<and> strftime_all ''%B %Y'' tv = Inr [''January 2022'', ''February 2022'']"
    by (elim exE conjE) (simp only: option.inject, blast)
  with scenario_bar_ticktext years differ show ?thesis
    by (intro conjI)
qed

section \<open>Templates of the dual chart\<close>

text \<open>
  C7. A figure returned by \<open>plot_dual_line_chart\<close> has two traces. The text template of the
  first is \<open>%\<close> followed by \<open>y1_format\<close>, that of the second \<open>%\<close> followed by \<open>y2_format\<close>:
  neither depends on the other's format. Both traces have the same x array, which is also
  the figure's tick values.
\<close>

theorem dual_chart_templates_independent:
  assumes "xs_of (plot_dual_line_chart df date_col y1_col y2_col title y1_name y2_name y1_color
      y2_color y1_format y2_format date_format tick_angle n_points) = Inr xs"
  shows "templates_of (plot_dual_line_chart df date_col y1_col y2_col title y1_name y2_name
          y1_color y2_color y1_format y2_format date_format tick_angle n_points)
        = Inr [Some (''%'' @ y1_format), Some (''%'' @ y2_format)]
    \<and> (\<exists>x. xs = [x, x]
          \<and> tickvals_of (plot_dual_line_chart df date_col y1_col y2_col title y1_name y2_name
                y1_color y2_color y1_format y2_format date_format tick_angle n_points)
              = Inr (Some x))"
proof -
  obtain fig where fig: "plot_dual_line_chart df date_col y1_col y2_col title y1_name y2_name
      y1_color y2_color y1_format y2_format date_format tick_angle n_points = Inr fig"
    and xs: "xs = map tr_x (fig_traces fig)"
    using assms unfolding observers_Inr by blast
  from plot_dual_line_chart_Inr [OF fig] xs show ?thesis
    by (auto simp: fig templates_of_def tickvals_of_def)
qed

lemma scenario_dual_pct_xs:
  "xs_of (plot_dual_line_chart scenario ''date'' ''Value1'' ''Value2'' ''Comparative Analysis''
      ''Primary Metric'' ''Secondary Metric'' ''#0131FF'' ''#C7D2FF'' ''{text:.1%}''
      ''{text:,.0f}'' ''%B %y'' 45 12)
    = Inr [DateS [Some (2022, 1, 1), Some (2022, 2, 1), Some (2022, 3, 1)],
           DateS [Some (2022, 1, 1), Some (2022, 2, 1), Some (2022, 3, 1)]]"
  by (simp add: plot_dual_line_chart_eq eval_defs)

theorem dual_chart_templates_independent_witness:
  "xs_of (plot_dual_line_chart scenario ''date'' ''Value1'' ''Value2'' ''Comparative Analysis''
      ''Primary Metric'' ''Secondary Metric'' ''#0131FF'' ''#C7D2FF'' ''{text:.1%}''
      ''{text:,.0f}'' ''%B %y'' 45 12)
     = Inr [DateS [Some (2022, 1, 1), Some (2022, 2, 1), Some (2022, 3, 1)],
            DateS [Some (2022, 1, 1), Some (2022, 2, 1), Some (2022, 3, 1)]]
   \<and> FORMAT_TEMPLATES ''percentage'' = Some ''{text:.1%}''
   \<and> FORMAT_TEMPLATES ''number'' = Some ''{text:,.0f}''
   \<and> templates_of (plot_dual_line_chart scenario ''date'' ''Value1'' ''Value2''
      ''Comparative Analysis'' ''Primary Metric'' ''Secondary Metric'' ''#0131FF'' ''#C7D2FF''
      ''{text:.1%}'' ''{text:,.0f}'' ''%B %y'' 45 12)
     = Inr [Some ''%{text:.1%}'', Some ''%{text:,.0f}'']"
  using dual_chart_templates_independent [OF scenario_dual_pct_xs] scenario_dual_pct_xs
  by (simp add: FORMAT_TEMPLATES_def)

section \<open>The input frame is left as it was\<close>

text \<open>
  C8. Over the object store, a builder call leaves the frame it was given as it was, whether
  it returns a figure or an error: the store after the call holds the same frame at the
  input's reference, and every object that existed before the call is unchanged (the call
  only adds the frames that \<^verbatim>\<open>sort\<close>, \<^verbatim>\<open>with_columns\<close> and \<^verbatim>\<open>tail\<close> return).
\<close>

theorem builders_do_not_mutate_input:
  assumes "df < length st"
  shows "snd (plot_line_chart_ref st df date_col y_values y_format title color n_points
            tick_angle date_format) ! df = st ! df
    \<and> take (length st) (snd (plot_line_chart_ref st df date_col y_values y_format title color
            n_points tick_angle date_format)) = st
    \<and> snd (plot_dual_line_chart_ref st df date_col y1_col y2_col title y1_name y2_name y1_color
            y2_color y1_format y2_format date_format tick_angle n_points) ! df = st ! df
    \<and> take (length st) (snd (plot_dual_line_chart_ref st df date_col y1_col y2_col title
            y1_name y2_name y1_color y2_color y1_format y2_format date_format tick_angle
            n_points)) = st
    \<and> snd (plot_bar_chart_ref st df x_axis y_values title color value_column scale_factor
            n_points) ! df = st ! df
    \<and> take (length st) (snd (plot_bar_chart_ref st df x_axis y_values title color
            value_column scale_factor n_points)) = st"
  using assms
  by (simp add: plot_line_chart_ref_eq plot_dual_line_chart_ref_eq plot_bar_chart_ref_eq
      nth_append split: sum.splits)

theorem builders_do_not_mutate_input_witness:
  "(0 :: nat) < length [scenario]
   \<and> snd (plot_line_chart_ref [scenario] 0 ''date'' ''Value1'' ''{text:,.0f}'' ''Line Chart''
        ''#FF6200'' 12 45 ''%B %y'') ! 0 = scenario
   \<and> snd (plot_line_chart_ref [scenario] 0 ''nope'' ''Monto_Efectivo'' ''{text:,.0f}'' ''Line Chart''
        ''#FF6200'' 12 45 ''%B %y'') ! 0 = scenario
   \<and> snd (plot_bar_chart_ref [scenario] 0 ''date'' ''Monto_Efectivo'' ''Line Chart''
        ''#FF6200'' ''Monto_Efectivo'' 1000000 12) ! 0 = scenario
   \<and> length (snd (plot_bar_chart_ref [scenario] 0 ''date'' ''Monto_Efectivo'' ''Line Chart''
        ''#FF6200'' ''Monto_Efectivo'' 1000000 12)) = 3"
proof -
  have len: "length (snd (plot_bar_chart_ref [scenario] 0 ''date'' ''Monto_Efectivo''
        ''Line Chart'' ''#FF6200'' ''Monto_Efectivo'' 1000000 12)) = 3"
    by (simp add: plot_bar_chart_ref_eq with_columns_div_def get_column_def scenario_def)
  show ?thesis
    using builders_do_not_mutate_input [where st = "[scenario]" and df = 0
        and date_col = "''date''" and y_values = "''Value1''" and y_format = "''{text:,.0f}''"
        and title = "''Line Chart''" and color = "''#FF6200''" and n_points = 12
        and tick_angle = 45 and date_format = "''%B %y''"]
      builders_do_not_mutate_input [where st = "[scenario]" and df = 0
        and date_col = "''nope''" and y_values = "''Monto_Efectivo''"
        and y_format = "''{text:,.0f}''"
        and title = "''Line Chart''" and color = "''#FF6200''" and n_points = 12
        and tick_angle = 45 and date_format = "''%B %y''" and x_axis = "''date''"
        and value_column = "''Monto_Efectivo''" and scale_factor = 1000000]
      len
    by simp
qed

section \<open>Tick labels of the line chart\<close>

text \<open>
  C9, as the code has it. For a Date column, a figure returned by \<open>plot_line_chart\<close> has one
  tick label per data point of the window, in the order of the points: the tick values are
  the x array, and the labels are \<^verbatim>\<open>strftime(date_format)\<close> mapped over it. The labels are as
  many as the distinct dates of the window if and only if the dates of the window are
  distinct.
\<close>

theorem line_chart_tick_labels:
  assumes "map_of df date_col = Some (DateS ds)"
    and "ticktext_of (plot_line_chart df date_col y_values y_format title color n_points
      tick_angle date_format) = Inr tt"
  shows "\<exists>w. map Some w = tail_list n_points (sort ds)
    \<and> xs_of (plot_line_chart df date_col y_values y_format title color n_points tick_angle
          date_format) = Inr [DateS (map Some w)]
    \<and> tickvals_of (plot_line_chart df date_col y_values y_format title color n_points
          tick_angle date_format) = Inr (Some (DateS (map Some w)))
    \<and> tt = Some (map (strftime date_format) w)
    \<and> (distinct w \<longleftrightarrow> length (map (strftime date_format) w) = card (set w))"
proof -
  let ?W = "tail_list n_points (sort ds)"
  obtain fig where fig: "plot_line_chart df date_col y_values y_format title color n_points
      tick_angle date_format = Inr fig" and tt: "tt = fig_ticktext fig"
    using assms(2) unfolding observers_Inr by blast
  from plot_line_chart_Inr [OF fig] assms(1) obtain labels where
    labels: "strftime_all date_format (DateS ?W) = Inr labels"
    and xs: "map tr_x (fig_traces fig) = [DateS ?W]"
    and tv: "fig_tickvals fig = Some (DateS ?W)"
    and tx: "fig_ticktext fig = Some labels"
    by (auto simp: window_DateS)
  from strftime_all_DateS_Inr [OF labels]
  have nn: "None \<notin> set ?W" and ls: "labels = map (\<lambda>d. strftime date_format (the d)) ?W"
    by simp_all
  have W: "map Some (map the ?W) = ?W"
    using nn by (rule map_Some_the)
  have dc: "distinct v \<longleftrightarrow> length (map (strftime date_format) v) = card (set v)"
    for v :: "date list"
  proof
    assume "distinct v"
    then show "length (map (strftime date_format) v) = card (set v)"
      by (simp add: distinct_card)
  next
    assume "length (map (strftime date_format) v) = card (set v)"
    then have "card (set v) = length v"
      by simp
    then show "distinct v"
      by (rule card_distinct)
  qed
  have "map Some (map the ?W) = ?W
    \<and> xs_of (plot_line_chart df date_col y_values y_format title color n_points tick_angle
          date_format) = Inr [DateS (map Some (map the ?W))]
    \<and> tickvals_of (plot_line_chart df date_col y_values y_format title color n_points
          tick_angle date_format) = Inr (Some (DateS (map Some (map the ?W))))
    \<and> tt = Some (map (strftime date_format) (map the ?W))
    \<and> (distinct (map the ?W)
        \<longleftrightarrow> length (map (strftime date_format) (map the ?W)) = card (set (map the ?W)))"
    unfolding W
    by (intro conjI dc) (simp_all add: fig xs_of_def tickvals_of_def xs tv tt tx ls comp_def)
  then show ?thesis by (rule exI)
qed

text \<open>
  C9 as stated fails on a table with a repeated date: two rows of 2022-01-01 give two labels
  (and two tick values) for one distinct date.
\<close>

lemma same_day_ticktext:
  "ticktext_of (plot_line_chart same_day ''date'' ''Value1'' ''{text:,.0f}'' ''Line Chart''
      ''#FF6200'' 12 45 ''%B %y'') = Inr (Some [''January 22'', ''January 22''])"
  by (simp add: plot_line_chart_eq same_day_def eval_defs pad2_def show_nat.simps month_name_def
      month_names_def digit_char_def)

theorem tick_labels_repeat_for_repeated_dates:
  "ticktext_of (plot_line_chart same_day ''date'' ''Value1'' ''{text:,.0f}'' ''Line Chart''
      ''#FF6200'' 12 45 ''%B %y'') = Inr (Some [''January 22'', ''January 22''])
   \<and> tickvals_of (plot_line_chart same_day ''date'' ''Value1'' ''{text:,.0f}'' ''Line Chart''
      ''#FF6200'' 12 45 ''%B %y'')
     = Inr (Some (DateS [Some (2022, 1, 1), Some (2022, 1, 1)]))
   \<and> length [''January 22'', ''January 22''] = 2
   \<and> card (set [Some (2022 :: nat, 1 :: nat, 1 :: nat), Some (2022, 1, 1)]) = 1"
  using same_day_ticktext
  by (simp add: plot_line_chart_eq same_day_def eval_defs)

lemma scenario_ticktext:
  "ticktext_of (plot_line_chart scenario ''date'' ''Value1'' ''{text:,.0f}'' ''Line Chart''
      ''#FF6200'' 2 45 ''%B %y'') = Inr (Some [''February 22'', ''March 22''])"
  by (simp add: plot_line_chart_eq eval_defs pad2_def show_nat.simps month_name_def
      month_names_def digit_char_def)

theorem line_chart_tick_labels_witness:
  "map_of scenario ''date''
     = Some (DateS [Some (2022, 3, 1), Some (2022, 1, 1), Some (2022, 2, 1)])
   \<and> ticktext_of (plot_line_chart scenario ''date'' ''Value1'' ''{text:,.0f}'' ''Line Chart''
      ''#FF6200'' 2 45 ''%B %y'') = Inr (Some [''February 22'', ''March 22''])
   \<and> (\<exists>w. map Some w = [Some (2022, 2, 1), Some (2022, 3, 1)]
        \<and> xs_of (plot_line_chart scenario ''date'' ''Value1'' ''{text:,.0f}'' ''Line Chart''
            ''#FF6200'' 2 45 ''%B %y'') = Inr [DateS (map Some w)]
        \<and> [''February 22'', ''March 22''] = map (strftime ''%B %y'') w)"
proof -
  have dates: "map_of scenario ''date''
      = Some (DateS [Some (2022, 3, 1), Some (2022, 1, 1), Some (2022, 2, 1)])"
    by (simp add: scenario_def)
  have win: "tail_list 2 (sort [Some (2022, 3, 1), Some (2022, 1, 1), Some (2022, 2, 1 :: nat)])
      = [Some (2022 :: nat, 2 :: nat, 1), Some (2022, 3, 1)]"
    by (simp add: tail_list_def)
  from line_chart_tick_labels [OF dates scenario_ticktext]
  obtain w :: "date list" where
    "map Some w = tail_list 2 (sort [Some (2022, 3, 1), Some (2022, 1, 1), Some (2022, 2, 1)])
     \<and> xs_of (plot_line_chart scenario ''date'' ''Value1'' ''{text:,.0f}'' ''Line Chart''
            ''#FF6200'' 2 45 ''%B %y'') = Inr [DateS (map Some w)]
     \<and> tickvals_of (plot_line_chart scenario ''date'' ''Value1'' ''{text:,.0f}''
            ''Line Chart'' ''#FF6200'' 2 45 ''%B %y'') = Inr (Some (DateS (map Some w)))
     \<and> Some [''February 22'', ''March 22''] = Some (map (strftime ''%B %y'') w)
     \<and> (distinct w \<longleftrightarrow> length (map (strftime ''%B %y'') w) = card (set w))"
    by (rule exE)
  then have "map Some w = [Some (2022, 2, 1), Some (2022, 3, 1)]
     \<and> xs_of (plot_line_chart scenario ''date'' ''Value1'' ''{text:,.0f}'' ''Line Chart''
            ''#FF6200'' 2 45 ''%B %y'') = Inr [DateS (map Some w)]
     \<and> [''February 22'', ''March 22''] = map (strftime ''%B %y'') w"
    unfolding win option.inject by (elim conjE) (intro conjI)
  then have "\<exists>w. map Some w = [Some (2022, 2, 1), Some (2022, 3, 1)]
     \<and> xs_of (plot_line_chart scenario ''date'' ''Value1'' ''{text:,.0f}'' ''Line Chart''
            ''#FF6200'' 2 45 ''%B %y'') = Inr [DateS (map Some w)]
     \<and> [''February 22'', ''March 22''] = map (strftime ''%B %y'') w"
    by (rule exI)
  with dates scenario_ticktext show ?thesis
    by (intro conjI)
qed

section \<open>Which column the bar chart scales\<close>

text \<open>
  C10. \<open>plot_bar_chart\<close> divides the column \<open>value_column\<close>, not the plotted column: when
  \<open>y_values\<close> is another column, the y array of the returned figure is the window of the
  input's \<open>y_values\<close> column, unscaled. The scaled frame differs from the input in the
  column \<open>value_column\<close> only, and there it holds the quotients: every integer \<open>v\<close> has
  become \<open>v / scale_factor\<close>, every finite float \<open>q\<close> has become \<open>q / scale_factor\<close> (for a
  \<open>scale_factor\<close> other than 0; nulls stay null).
\<close>

theorem bar_chart_scales_value_column_only:
  assumes "y_values \<noteq> value_column"
    and "ys_of (plot_bar_chart df x_axis y_values title color value_column scale_factor
      n_points) = Inr ys"
  shows "(\<exists>col. map_of df y_values = Some col \<and> ys = [tail_series n_points col])
    \<and> (\<exists>sv sv' scaled. map_of df value_column = Some sv \<and> numeric sv
          \<and> with_columns_div df value_column scale_factor = Inr scaled
          \<and> map_of scaled value_column = Some sv'
          \<and> (\<forall>c. c \<noteq> value_column \<longrightarrow> map_of scaled c = map_of df c)
          \<and> (\<forall>vs. sv = IntS vs \<and> scale_factor \<noteq> 0 \<longrightarrow>
                sv' = FloatS (map (map_option (\<lambda>v. Fin (of_int v / of_int scale_factor))) vs))
          \<and> (\<forall>fs. sv = FloatS fs \<and> scale_factor \<noteq> 0 \<longrightarrow>
                sv' = FloatS (map (map_option (\<lambda>v. case v of
                    Fin q \<Rightarrow> Fin (q / of_int scale_factor)
                  | PosInf \<Rightarrow> if scale_factor < 0 then NegInf else PosInf
                  | NegInf \<Rightarrow> if scale_factor < 0 then PosInf else NegInf
                  | NaN \<Rightarrow> NaN)) fs)))"
proof -
  obtain fig where fig: "plot_bar_chart df x_axis y_values title color value_column
      scale_factor n_points = Inr fig" and ys: "ys = map tr_y (fig_traces fig)"
    using assms(2) unfolding observers_Inr by blast
  from plot_bar_chart_Inr [OF fig] obtain sv sv' col where
    sv: "map_of df value_column = Some sv"
    and sv': "div_series value_column sv scale_factor = Inr sv'"
    and col: "scaled_column df value_column sv' y_values = Some col"
    and plotted: "map tr_y (fig_traces fig) = [tail_series n_points col]"
    by auto
  let ?scaled = "map (\<lambda>(c', s). if c' = value_column then (c', sv') else (c', s)) df"
  have first: "\<exists>col. map_of df y_values = Some col \<and> ys = [tail_series n_points col]"
    using col plotted ys assms(1) by (simp add: scaled_column_def)
  have num: "numeric sv"
    using sv' by (cases sv) simp_all
  have wc: "with_columns_div df value_column scale_factor = Inr ?scaled"
    by (simp add: with_columns_div_def get_column_def sv sv')
  have at_vc: "map_of ?scaled value_column = Some sv'"
    by (simp add: map_of_replace sv)
  have others: "\<forall>c. c \<noteq> value_column \<longrightarrow> map_of ?scaled c = map_of df c"
    by (simp add: map_of_replace)
  have ints: "\<forall>vs. sv = IntS vs \<and> scale_factor \<noteq> 0 \<longrightarrow>
      sv' = FloatS (map (map_option (\<lambda>v. Fin (of_int v / of_int scale_factor))) vs)"
    using sv' by auto
  have f: "k \<noteq> 0 \<Longrightarrow> f64_div v k = (case v of
        Fin q \<Rightarrow> Fin (q / of_int k)
      | PosInf \<Rightarrow> if k < 0 then NegInf else PosInf
      | NegInf \<Rightarrow> if k < 0 then PosInf else NegInf
      | NaN \<Rightarrow> NaN)" for v k
    by (cases v) simp_all
  have floats: "\<forall>fs. sv = FloatS fs \<and> scale_factor \<noteq> 0 \<longrightarrow>
      sv' = FloatS (map (map_option (\<lambda>v. case v of
          Fin q \<Rightarrow> Fin (q / of_int scale_factor)
        | PosInf \<Rightarrow> if scale_factor < 0 then NegInf else PosInf
        | NegInf \<Rightarrow> if scale_factor < 0 then PosInf else NegInf
        | NaN \<Rightarrow> NaN)) fs)"
    using sv' by (auto simp: f)
  from sv num wc at_vc others ints floats
  have "\<exists>sv sv' scaled. map_of df value_column = Some sv \<and> numeric sv
          \<and> with_columns_div df value_column scale_factor = Inr scaled
          \<and> map_of scaled value_column = Some sv'
          \<and> (\<forall>c. c \<noteq> value_column \<longrightarrow> map_of scaled c = map_of df c)
          \<and> (\<forall>vs. sv = IntS vs \<and> scale_factor \<noteq> 0 \<longrightarrow>
                sv' = FloatS (map (map_option (\<lambda>v. Fin (of_int v / of_int scale_factor))) vs))
          \<and> (\<forall>fs. sv = FloatS fs \<and> scale_factor \<noteq> 0 \<longrightarrow>
                sv' = FloatS (map (map_option (\<lambda>v. case v of
                    Fin q \<Rightarrow> Fin (q / of_int scale_factor)
                  | PosInf \<Rightarrow> if scale_factor < 0 then NegInf else PosInf
                  | NegInf \<Rightarrow> if scale_factor < 0 then PosInf else NegInf
                  | NaN \<Rightarrow> NaN)) fs))"
    by (intro exI [of _ sv] exI [of _ sv'] exI [of _ ?scaled] conjI)
  with first show ?thesis
    by (rule conjI)
qed

lemma scenario_bar_other_ys:
  "ys_of (plot_bar_chart scenario ''date'' ''Value2'' ''Bar Chart'' ''#FF6200''
      ''Monto_Efectivo'' 1000000 2)
    = Inr [IntS [Some 1200, Some 800]]"
  by (simp add: plot_bar_chart_eq eval_defs)

theorem bar_chart_scales_value_column_only_witness:
  "''Value2'' \<noteq> ''Monto_Efectivo''
   \<and> ys_of (plot_bar_chart scenario ''date'' ''Value2'' ''Bar Chart'' ''#FF6200''
        ''Monto_Efectivo'' 1000000 2) = Inr [IntS [Some 1200, Some 800]]
   \<and> map_of scenario ''Value2'' = Some (IntS [Some 900, Some 1200, Some 800])
   \<and> map_of scenario ''Monto_Efectivo''
       = Some (IntS [Some 2500000, Some 1000000, Some 4000000])
   \<and> (\<exists>scaled. with_columns_div scenario ''Monto_Efectivo'' 1000000 = Inr scaled
        \<and> map_of scaled ''Monto_Efectivo''
            = Some (FloatS [Some (Fin (5 / 2)), Some (Fin 1), Some (Fin 4)])
        \<and> map_of scaled ''Value2'' = Some (IntS [Some 900, Some 1200, Some 800]))"
proof -
  have ne: "''Value2'' \<noteq> ''Monto_Efectivo''"
    by simp
  have v2: "map_of scenario ''Value2'' = Some (IntS [Some 900, Some 1200, Some 800])"
    and me: "map_of scenario ''Monto_Efectivo''
      = Some (IntS [Some 2500000, Some 1000000, Some 4000000])"
    by (simp_all add: scenario_def)
  from bar_chart_scales_value_column_only [OF ne scenario_bar_other_ys]
  obtain sv sv' scaled where
    sv: "map_of scenario ''Monto_Efectivo'' = Some sv"
    and wc: "with_columns_div scenario ''Monto_Efectivo'' 1000000 = Inr scaled"
    and at_vc: "map_of scaled ''Monto_Efectivo'' = Some sv'"
    and others: "\<forall>c. c \<noteq> ''Monto_Efectivo'' \<longrightarrow> map_of scaled c = map_of scenario c"
    and ints: "\<forall>vs. sv = IntS vs \<and> (1000000 :: int) \<noteq> 0 \<longrightarrow>
        sv' = FloatS (map (map_option (\<lambda>v. Fin (of_int v / of_int 1000000))) vs)"
    by auto
  from sv me have "sv = IntS [Some 2500000, Some 1000000, Some 4000000]"
    by simp
  with ints have "sv' = FloatS [Some (Fin (5 / 2)), Some (Fin 1), Some (Fin 4)]"
    by simp
  with at_vc others v2 ne
  have "map_of scaled ''Monto_Efectivo''
            = Some (FloatS [Some (Fin (5 / 2)), Some (Fin 1), Some (Fin 4)])
        \<and> map_of scaled ''Value2'' = Some (IntS [Some 900, Some 1200, Some 800])"
    by simp
  with wc have "\<exists>scaled. with_columns_div scenario ''Monto_Efectivo'' 1000000 = Inr scaled
        \<and> map_of scaled ''Monto_Efectivo''
            = Some (FloatS [Some (Fin (5 / 2)), Some (Fin 1), Some (Fin 4)])
        \<and> map_of scaled ''Value2'' = Some (IntS [Some 900, Some 1200, Some 800])"
    by (intro exI [of _ scaled] conjI) simp_all
  with ne scenario_bar_other_ys v2 me show ?thesis
    by (intro conjI)
qed

end
